theory Spec2Isabelle
  imports Main
begin

section \<open>Text\<close>

text \<open>
  Python strings are modelled as \<^typ>\<open>string\<close>, a list of bytes: a character outside
  ASCII is the bytes of its UTF-8 encoding. Every string operation below copies bytes above
  127 unchanged, so the byte view and the code-point view agree.
\<close>

definition sq :: char where
  "sq = CHR 0x27"

definition dq :: char where
  "dq = CHR 0x22"

definition bsl :: char where
  "bsl = CHR 0x5C"

definition nl :: char where
  "nl = CHR 0x0A"

definition tab :: char where
  "tab = CHR 0x09"

definition cr :: char where
  "cr = CHR 0x0D"

text \<open>\<^verbatim>\<open>str(n)\<close> for an integer: decimal digits, a minus sign when negative.\<close>

fun str_nat :: "nat \<Rightarrow> string" where
  "str_nat n = (if n < 10 then [''0123456789'' ! n] else str_nat (n div 10) @ [''0123456789'' ! (n mod 10)])"

declare str_nat.simps [simp del]

definition str_int :: "int \<Rightarrow> string" where
  "str_int i = (if i < 0 then CHR ''-'' # str_nat (nat (- i)) else str_nat (nat i))"

text \<open>\<^verbatim>\<open>str(timeout)\<close>, where the timeout is a number of seconds or \<^verbatim>\<open>None\<close>.\<close>

definition str_timeout :: "int option \<Rightarrow> string" where
  "str_timeout t = (case t of None \<Rightarrow> ''None'' | Some i \<Rightarrow> str_int i)"

text \<open>
  \<^verbatim>\<open>repr\<close> of a string, as the interpreter prints the elements of a list: single quotes,
  unless the text holds a single quote and no double quote; the quote character and the
  backslash are escaped, as are tab, newline, carriage return and the other control
  characters (two lower-case hexadecimal digits).
\<close>

definition hex_digit :: "nat \<Rightarrow> char" where
  "hex_digit d = ''0123456789abcdef'' ! (d mod 16)"

definition repr_char :: "char \<Rightarrow> char \<Rightarrow> string" where
  "repr_char q c =
     (if c = q \<or> c = bsl then [bsl, c]
      else if c = tab then [bsl, CHR ''t'']
      else if c = nl then [bsl, CHR ''n'']
      else if c = cr then [bsl, CHR ''r'']
      else if of_char c < (32::nat) \<or> of_char c = (127::nat)
        then [bsl, CHR ''x'', hex_digit (of_char c div 16), hex_digit (of_char c mod 16)]
      else [c])"

definition repr_str :: "string \<Rightarrow> string" where
  "repr_str s =
     (let q = (if sq \<in> set s \<and> dq \<notin> set s then dq else sq)
      in q # concat (map (repr_char q) s) @ [q])"

fun join :: "string \<Rightarrow> string list \<Rightarrow> string" where
  "join sep [] = []"
| "join sep [x] = x"
| "join sep (x # y # ys) = x @ sep @ join sep (y # ys)"

definition repr_list :: "string list \<Rightarrow> string" where
  "repr_list xs = ''['' @ join '', '' (map repr_str xs) @ '']''"

section \<open>Results and errors\<close>

text \<open>
  The result of an execution is a namespace object whose attributes are set one by one
  (\<^verbatim>\<open>types.SimpleNamespace\<close>, or the \<^verbatim>\<open>CompletedProcess\<close> of \<^verbatim>\<open>subprocess.run\<close>, whose
  \<^verbatim>\<open>args\<close> attribute no code of the package reads). An attribute that has not been set is
  \<open>None\<close>; reading it raises \<^verbatim>\<open>AttributeError\<close>.
\<close>

record 'p result =
  stdout :: "string option"
  stderr :: "string option"
  returncode :: "int option"
  processed :: "'p option"
  attempts :: "int option"
  repeat_messages :: "string option"

definition SimpleNamespace :: "'p result" where
  "SimpleNamespace = \<lparr>stdout = None, stderr = None, returncode = None, processed = None,
     attempts = None, repeat_messages = None\<rparr>"

text \<open>
  The exception classes of \<^verbatim>\<open>exceptions.py\<close> that the execution code raises, the built-in
  ones it raises, any other class derived from \<^verbatim>\<open>Exception\<close> (with its class name), and the
  classes derived from \<^verbatim>\<open>BaseException\<close> only, such as \<^verbatim>\<open>KeyboardInterrupt\<close>.
\<close>

datatype exn_kind =
    NonZeroReturnCode | Stderr | CommandTimedOut | RepeatedExecutionFailed
  | TypeError | ValueError | AttributeError
  | OtherException string
  | NotAnException string

fun type_name :: "exn_kind \<Rightarrow> string" where
  "type_name NonZeroReturnCode = ''NonZeroReturnCode''"
| "type_name Stderr = ''Stderr''"
| "type_name CommandTimedOut = ''CommandTimedOut''"
| "type_name RepeatedExecutionFailed = ''RepeatedExecutionFailed''"
| "type_name TypeError = ''TypeError''"
| "type_name ValueError = ''ValueError''"
| "type_name AttributeError = ''AttributeError''"
| "type_name (OtherException c) = c"
| "type_name (NotAnException c) = c"

text \<open>
  An exception object: its class, the text \<^verbatim>\<open>str(e)\<close>, and the \<^verbatim>\<open>result\<close> attribute that
  \<^verbatim>\<open>FailedCommand.__init__\<close> stores (\<open>None\<close> when no result was passed; the other classes
  have no such attribute).
\<close>

datatype 'p exn = Exn (kind: exn_kind) (message: string) (attached: "'p result option")

fun is_Exception :: "'p exn \<Rightarrow> bool" where
  "is_Exception (Exn (NotAnException c) m r) = False"
| "is_Exception (Exn k m r) = True"

text \<open>Reading an attribute that is not set; the message is shortened to the attribute's name.\<close>

definition attribute_error :: "string \<Rightarrow> 'p exn" where
  "attribute_error a = Exn AttributeError a None"

section \<open>The environment\<close>

text \<open>
  What one call of \<^verbatim>\<open>subprocess.run\<close> does: the process completes with its two output
  texts and its exit code, or \<^verbatim>\<open>TimeoutExpired\<close> is raised, or another exception is
  (for instance \<^verbatim>\<open>FileNotFoundError\<close>).
\<close>

datatype proc_outcome =
    Completed string string int
  | TimeoutExpired
  | ProcRaised exn_kind string

text \<open>
  What one statement on the remote channel does: it returns its value, or raises
  \<^verbatim>\<open>socket.timeout\<close>, or raises another exception.
\<close>

datatype 'a step = Ok 'a | SocketTimeout | Raised exn_kind string

text \<open>
  The four statements of a remote execution: \<^verbatim>\<open>exec_command\<close>, reading and decoding the
  standard output, reading and decoding the standard error, \<^verbatim>\<open>recv_exit_status\<close>.
\<close>

datatype chan_outcome = Chan "unit step" "string step" "string step" "int step"

record 'c connection_obj =
  label :: string
  paramiko_client :: 'c

text \<open>The command attribute: the text of a remote command, the argument vector of a local one,
  or an object that is neither (given by its text \<^verbatim>\<open>str(command)\<close>).\<close>

datatype cmd_val = Text string | Args "string list" | Obj string

fun format_cmd :: "cmd_val \<Rightarrow> string" where
  "format_cmd (Text s) = s"
| "format_cmd (Args xs) = repr_list xs"
| "format_cmd (Obj t) = t"

text \<open>The effects of the package on its environment, in the order they happen.\<close>

datatype 'c event =
    SubprocessRun cmd_val "string option" "int option"
  | ExecCommand 'c string "int option"
  | Slept int
  | Echoed string
  | Logged string string

text \<open>
  The environment: what the next local executions and the next remote executions will do,
  whether the clock of the platform accepts the next sleeps (index 0 is the next one), and
  the effects so far.
\<close>

record 'c io =
  local_script :: "nat \<Rightarrow> proc_outcome"
  remote_script :: "nat \<Rightarrow> chan_outcome"
  sleep_script :: "nat \<Rightarrow> bool"
  trace :: "'c event list"

definition emit :: "'c event \<Rightarrow> 'c io \<Rightarrow> 'c io" where
  "emit ev s = s\<lparr>trace := trace s @ [ev]\<rparr>"

definition subprocess_run :: "cmd_val \<Rightarrow> string option \<Rightarrow> int option \<Rightarrow> 'c io \<Rightarrow> proc_outcome \<times> 'c io" where
  "subprocess_run args cwd timeout s =
     (local_script s 0,
      emit (SubprocessRun args cwd timeout) (s\<lparr>local_script := local_script s \<circ> Suc\<rparr>))"

definition exec_command :: "'c \<Rightarrow> string \<Rightarrow> int option \<Rightarrow> 'c io \<Rightarrow> chan_outcome \<times> 'c io" where
  "exec_command client cmd timeout s =
     (remote_script s 0,
      emit (ExecCommand client cmd timeout) (s\<lparr>remote_script := remote_script s \<circ> Suc\<rparr>))"

text \<open>
  \<^verbatim>\<open>time.sleep(secs)\<close> for a whole number of seconds: the package declares its waits so
  (\<^verbatim>\<open>:param int wait:\<close> in \<^verbatim>\<open>execute_repeat\<close> and in \<^verbatim>\<open>run\<close>), and a wait that is a float
  is outside this model. The interpreter turns the seconds into a signed 64-bit number of nanoseconds: a number
  that does not fit raises \<^verbatim>\<open>OverflowError\<close>, a negative one \<^verbatim>\<open>ValueError\<close>. The clock of
  the platform may still refuse the sleep (it does so for the longest ones), which raises
  \<^verbatim>\<open>OSError\<close>; otherwise the call sleeps. A call that raises has no effect. The result is
  the class and the text of the error, or the environment after the sleep.
\<close>

definition sleep_max :: int where
  "sleep_max = 9223372036"

definition sleep :: "int \<Rightarrow> 'c io \<Rightarrow> (exn_kind \<times> string) + 'c io" where
  "sleep secs s =
     (if secs < - sleep_max \<or> sleep_max < secs then
        Inl (OtherException ''OverflowError'', ''timestamp too large to convert to C _PyTime_t'')
      else if secs < 0 then Inl (ValueError, ''sleep length must be non-negative'')
      else if sleep_script s 0 then
        Inr (emit (Slept secs) (s\<lparr>sleep_script := sleep_script s \<circ> Suc\<rparr>))
      else Inl (OtherException ''OSError'', ''[Errno 22] Invalid argument''))"

definition echo :: "string \<Rightarrow> 'c io \<Rightarrow> 'c io" where
  "echo msg s = emit (Echoed msg) s"

text \<open>The seconds slept, the executions started.\<close>

fun sleeps :: "'c event list \<Rightarrow> int list" where
  "sleeps [] = []"
| "sleeps (Slept w # es) = w # sleeps es"
| "sleeps (e # es) = sleeps es"

fun is_execution :: "'c event \<Rightarrow> bool" where
  "is_execution (SubprocessRun a c t) = True"
| "is_execution (ExecCommand c m t) = True"
| "is_execution e = False"

definition executions :: "'c event list \<Rightarrow> 'c event list" where
  "executions es = filter is_execution es"

section \<open>exceptions.py\<close>

text \<open>
  \<^verbatim>\<open>FailedCommand.__init__(msg, result=None, error_log=None)\<close>: stores the result and, when a
  logger is given (here by its name), writes \<^verbatim>\<open>str(self)\<close> to it.
\<close>

definition FailedCommand :: "exn_kind \<Rightarrow> string \<Rightarrow> 'p result option \<Rightarrow> string option \<Rightarrow> 'c io \<Rightarrow> 'p exn \<times> 'c io" where
  "FailedCommand k msg res error_log s =
     (Exn k msg res,
      case error_log of None \<Rightarrow> s | Some logger \<Rightarrow> emit (Logged logger msg) s)"

section \<open>core.py\<close>

datatype cmd_class = LocalCommand | RemoteCommand

fun class_name :: "cmd_class \<Rightarrow> string" where
  "class_name LocalCommand = ''LocalCommand''"
| "class_name RemoteCommand = ''RemoteCommand''"

text \<open>
  A command object. \<open>self_result\<close> is \<open>None\<close> until an execution sets the attribute;
  \<open>self_repeat_messages\<close> is the text that \<^verbatim>\<open>execute_repeat\<close> resets before it uses it.
\<close>

record ('c, 'p) command_obj =
  cls :: cmd_class
  self_command :: cmd_val
  self_connection :: "'c connection_obj option"
  self_working_directory :: "string option"
  self_result :: "'p result option"
  self_repeat_messages :: string

definition CommandBase_init ::
  "cmd_class \<Rightarrow> cmd_val \<Rightarrow> 'c connection_obj option \<Rightarrow> string option \<Rightarrow> 'p exn + ('c, 'p) command_obj" where
  "CommandBase_init c command connection working_directory =
     (case connection of
        Some x \<Rightarrow> Inl (Exn ValueError ''Connection argument must not be specified on a LocalCommand object.'' None)
      | None \<Rightarrow> Inr \<lparr>cls = c, self_command = command, self_connection = None,
                     self_working_directory = working_directory, self_result = None,
                     self_repeat_messages = []\<rparr>)"

definition maximum_wait_time :: "int \<Rightarrow> int \<Rightarrow> int" where
  "maximum_wait_time attempts_arg wait = (2 ^ nat (attempts_arg - 1) - 1) * wait"

text \<open>The text of the two checker errors.\<close>

definition nonzero_msg :: "cmd_class \<Rightarrow> cmd_val \<Rightarrow> int \<Rightarrow> string \<Rightarrow> string" where
  "nonzero_msg c command rc err =
     [nl] @ ''  '' @ class_name c @ '' '' @ [sq] @ format_cmd command @ [sq] @ [nl]
     @ ''  yields nonzero exit code: '' @ str_int rc @ [nl] @ ''  stderr: '' @ err"

definition stderr_msg :: "cmd_class \<Rightarrow> cmd_val \<Rightarrow> string \<Rightarrow> string" where
  "stderr_msg c command err =
     [nl] @ ''  '' @ class_name c @ '' '' @ [sq] @ format_cmd command @ [sq] @ [nl]
     @ ''  yields output on stderr: '' @ [nl] @ err"

text \<open>
  \<^verbatim>\<open>process_output\<close>, third block: the post-processor, when there is one, is applied to the
  standard output and its value stored in the result. The post-processor is a function of
  the caller's; it returns its value or raises.
\<close>

definition post_process ::
  "('c, 'p) command_obj \<Rightarrow> 'p result \<Rightarrow> (string \<Rightarrow> 'p exn + 'p) option \<Rightarrow> 'c io
    \<Rightarrow> ('p exn + 'p result) \<times> ('c, 'p) command_obj \<times> 'c io" where
  "post_process self r post_processor s =
     (case post_processor of
        None \<Rightarrow> (Inr r, self, s)
      | Some f \<Rightarrow>
          (case stdout r of
             None \<Rightarrow> (Inl (attribute_error ''stdout''), self, s)
           | Some out \<Rightarrow>
               (case f out of
                  Inl e \<Rightarrow> (Inl e, self, s)
                | Inr v \<Rightarrow>
                    (let r' = r\<lparr>processed := Some v\<rparr>
                     in (Inr r', self\<lparr>self_result := Some r'\<rparr>, s)))))"

text \<open>Second block: output on the standard error, when it counts as an error.\<close>

definition check_stderr ::
  "('c, 'p) command_obj \<Rightarrow> 'p result \<Rightarrow> (string \<Rightarrow> 'p exn + 'p) option \<Rightarrow> bool \<Rightarrow> string option \<Rightarrow> 'c io
    \<Rightarrow> ('p exn + 'p result) \<times> ('c, 'p) command_obj \<times> 'c io" where
  "check_stderr self r post_processor stderr_is_error error_log s =
     (if stderr_is_error then
        (case stderr r of
           None \<Rightarrow> (Inl (attribute_error ''stderr''), self, s)
         | Some err \<Rightarrow>
             if err \<noteq> [] then
               (let (e, s') = FailedCommand Stderr (stderr_msg (cls self) (self_command self) err)
                                (Some r) error_log s
                in (Inl e, self, s'))
             else post_process self r post_processor s)
      else post_process self r post_processor s)"

text \<open>
  \<^verbatim>\<open>process_output\<close>: the exit code first, then the standard error, then the post-processor.
  An error carries the result object of the command.
\<close>

definition process_output ::
  "('c, 'p) command_obj \<Rightarrow> (string \<Rightarrow> 'p exn + 'p) option \<Rightarrow> bool \<Rightarrow> bool \<Rightarrow> string option \<Rightarrow> 'c io
    \<Rightarrow> ('p exn + 'p result) \<times> ('c, 'p) command_obj \<times> 'c io" where
  "process_output self post_processor check stderr_is_error error_log s =
     (case self_result self of
        None \<Rightarrow> (Inl (attribute_error ''result''), self, s)
      | Some r \<Rightarrow>
          if check then
            (case returncode r of
               None \<Rightarrow> (Inl (attribute_error ''returncode''), self, s)
             | Some rc \<Rightarrow>
                 if rc \<noteq> 0 then
                   (case stderr r of
                      None \<Rightarrow> (Inl (attribute_error ''stderr''), self, s)
                    | Some err \<Rightarrow>
                        (let (e, s') = FailedCommand NonZeroReturnCode
                                         (nonzero_msg (cls self) (self_command self) rc err)
                                         (Some r) error_log s
                         in (Inl e, self, s')))
                 else check_stderr self r post_processor stderr_is_error error_log s)
          else check_stderr self r post_processor stderr_is_error error_log s)"

text \<open>
  \<^verbatim>\<open>__repeat_message\<close>: a non-empty message gets a newline, is echoed when \<open>verbose\<close>, and
  is appended to the accumulated text; the empty message resets the text.
\<close>

definition repeat_message :: "('c, 'p) command_obj \<Rightarrow> string \<Rightarrow> bool \<Rightarrow> 'c io \<Rightarrow> ('c, 'p) command_obj \<times> 'c io" where
  "repeat_message self msg verbose s =
     (if msg \<noteq> [] then
        (let m = msg @ [nl]
         in (self\<lparr>self_repeat_messages := self_repeat_messages self @ m\<rparr>,
             if verbose then echo m s else s))
      else (self\<lparr>self_repeat_messages := []\<rparr>, s))"

section \<open>shlex\<close>

text \<open>
  \<^verbatim>\<open>shlex.split(s)\<close> of the standard library: the POSIX mode of the lexer's \<^verbatim>\<open>read_token\<close>,
  with \<^verbatim>\<open>whitespace_split\<close> set, no comment characters and no punctuation characters. The
  lexer's state is \<open>Sp\<close> (between tokens), \<open>Wd\<close> (in a word), \<open>Qt q\<close> (inside quotes
  opened by \<open>q\<close>) or \<open>Esc st\<close> (after a backslash read in state \<open>st\<close>). The result is
  the list of tokens, or the message of the \<^verbatim>\<open>ValueError\<close> that the lexer raises.
\<close>

datatype lex_state = Sp | Wd | Qt char | Esc lex_state

definition is_whitespace :: "char \<Rightarrow> bool" where
  "is_whitespace c = (c = CHR '' '' \<or> c = tab \<or> c = cr \<or> c = nl)"

definition is_quote :: "char \<Rightarrow> bool" where
  "is_quote c = (c = sq \<or> c = dq)"

text \<open>A token that is empty and was never quoted is the end of the input.\<close>

definition emit_token :: "string \<Rightarrow> bool \<Rightarrow> string + string list \<Rightarrow> string + string list" where
  "emit_token tok quoted rest =
     (if tok = [] \<and> \<not> quoted then Inr []
      else (case rest of Inl e \<Rightarrow> Inl e | Inr ts \<Rightarrow> Inr (tok # ts)))"

fun read_tokens :: "lex_state \<Rightarrow> string \<Rightarrow> bool \<Rightarrow> string \<Rightarrow> string + string list" where
  "read_tokens (Qt q) tok quoted [] = Inl ''No closing quotation''"
| "read_tokens (Esc st) tok quoted [] = Inl ''No escaped character''"
| "read_tokens st tok quoted [] = emit_token tok quoted (Inr [])"
| "read_tokens Sp tok quoted (c # cs) =
     (if is_whitespace c then
        (if tok \<noteq> [] \<or> quoted then emit_token tok quoted (read_tokens Sp [] False cs)
         else read_tokens Sp tok quoted cs)
      else if c = bsl then read_tokens (Esc Wd) tok quoted cs
      else if is_quote c then read_tokens (Qt c) tok quoted cs
      else read_tokens Wd [c] quoted cs)"
| "read_tokens (Qt q) tok quoted (c # cs) =
     (if c = q then read_tokens Wd tok True cs
      else if c = bsl \<and> q = dq then read_tokens (Esc (Qt q)) tok True cs
      else read_tokens (Qt q) (tok @ [c]) True cs)"
| "read_tokens (Esc st) tok quoted (c # cs) =
     (case st of
        Qt q \<Rightarrow> read_tokens st ((if c \<noteq> bsl \<and> c \<noteq> q then tok @ [bsl] else tok) @ [c]) quoted cs
      | _ \<Rightarrow> read_tokens st (tok @ [c]) quoted cs)"
| "read_tokens Wd tok quoted (c # cs) =
     (if is_whitespace c then
        (if tok \<noteq> [] \<or> quoted then emit_token tok quoted (read_tokens Sp [] False cs)
         else read_tokens Sp tok quoted cs)
      else if is_quote c then read_tokens (Qt c) tok quoted cs
      else if c = bsl then read_tokens (Esc Wd) tok quoted cs
      else read_tokens Wd (tok @ [c]) quoted cs)"

definition shlex_split :: "string \<Rightarrow> string + string list" where
  "shlex_split s = read_tokens Sp [] False s"

text \<open>
  \<^verbatim>\<open>shlex.quote(s)\<close>: the empty text becomes two single quotes; a text of letters, digits and
  \<^verbatim>\<open>_@%+=:,./-\<close> only is returned as it is; any other text is put in single quotes, each
  single quote of it replaced by \<^verbatim>\<open>'"'"'\<close>.
\<close>

definition is_safe_char :: "char \<Rightarrow> bool" where
  "is_safe_char c =
     (c \<in> set ''abcdefghijklmnopqrstuvwxyzABCDEFGHIJKLMNOPQRSTUVWXYZ0123456789_@%+=:,./-'')"

definition replace_sq :: "string \<Rightarrow> string" where
  "replace_sq s = concat (map (\<lambda>c. if c = sq then [sq, dq, sq, dq, sq] else [c]) s)"

definition shlex_quote :: "string \<Rightarrow> string" where
  "shlex_quote s =
     (if s = [] then [sq, sq]
      else if list_all is_safe_char s then s
      else [sq] @ replace_sq s @ [sq])"

section \<open>local.py\<close>

text \<open>
  \<^verbatim>\<open>LocalCommand.__init__\<close>: the base constructor, then a text is split into the argument
  vector and anything else is refused.
\<close>

definition LocalCommand_init :: "cmd_val \<Rightarrow> string option \<Rightarrow> 'p exn + ('c, 'p) command_obj" where
  "LocalCommand_init command working_directory =
     (case CommandBase_init LocalCommand command None working_directory of
        Inl e \<Rightarrow> Inl e
      | Inr self \<Rightarrow>
          (case self_command self of
             Text t \<Rightarrow>
               (case shlex_split t of
                  Inl m \<Rightarrow> Inl (Exn ValueError m None)
                | Inr argv \<Rightarrow> Inr (self\<lparr>self_command := Args argv\<rparr>))
           | _ \<Rightarrow> Inl (Exn TypeError (''Expecting '' @ [dq] @ ''str'' @ [dq] @ '' for command.'') None)))"

definition local_timeout_msg :: "cmd_val \<Rightarrow> int option \<Rightarrow> string" where
  "local_timeout_msg command timeout =
     ''Local command '' @ [sq] @ format_cmd command @ [sq] @ '' timed out after ''
     @ str_timeout timeout @ ''s.''"

text \<open>\<^verbatim>\<open>LocalCommand.execute\<close>: one run of the process, then \<^verbatim>\<open>process_output\<close>.\<close>

definition Local_execute ::
  "('c, 'p) command_obj \<Rightarrow> (string \<Rightarrow> 'p exn + 'p) option \<Rightarrow> bool \<Rightarrow> bool \<Rightarrow> int option \<Rightarrow> string option
    \<Rightarrow> 'c io \<Rightarrow> ('p exn + 'p result) \<times> ('c, 'p) command_obj \<times> 'c io" where
  "Local_execute self post_processor check stderr_is_error timeout error_log s =
     (let self1 = self\<lparr>self_result := Some SimpleNamespace\<rparr>;
          (outcome, s1) = subprocess_run (self_command self1) (self_working_directory self1) timeout s
      in case outcome of
           TimeoutExpired \<Rightarrow>
             (let (e, s2) = FailedCommand CommandTimedOut
                              (local_timeout_msg (self_command self1) timeout)
                              (self_result self1) error_log s1
              in (Inl e, self1, s2))
         | ProcRaised k m \<Rightarrow> (Inl (Exn k m None), self1, s1)
         | Completed out err rc \<Rightarrow>
             (let self2 = self1\<lparr>self_result :=
                            Some (SimpleNamespace\<lparr>stdout := Some out, stderr := Some err,
                                                    returncode := Some rc\<rparr>)\<rparr>
              in case process_output self2 post_processor check stderr_is_error error_log s1 of
                   (Inl e, self3, s2) \<Rightarrow> (Inl e, self3, s2)
                 | (Inr r, self3, s2) \<Rightarrow>
                     (case self_result self3 of
                        None \<Rightarrow> (Inl (attribute_error ''result''), self3, s2)
                      | Some r' \<Rightarrow> (Inr r', self3, s2))))"

section \<open>remote.py\<close>

text \<open>
  \<^verbatim>\<open>RemoteCommand.__init__\<close>: the base constructor, the connection, and the change of
  directory put in front of the command when a working directory is given.
\<close>

definition RemoteCommand_init ::
  "'c connection_obj \<Rightarrow> cmd_val \<Rightarrow> string option \<Rightarrow> 'p exn + ('c, 'p) command_obj" where
  "RemoteCommand_init connection command working_directory =
     (case CommandBase_init RemoteCommand command None working_directory of
        Inl e \<Rightarrow> Inl e
      | Inr self \<Rightarrow>
          (let self1 = self\<lparr>self_connection := Some connection\<rparr>
           in case self_working_directory self1 of
                None \<Rightarrow> Inr self1
              | Some d \<Rightarrow>
                  if d \<noteq> [] then
                    Inr (self1\<lparr>self_command :=
                           Text (''cd '' @ shlex_quote d @ '' && '' @ format_cmd (self_command self1))\<rparr>)
                  else Inr self1))"

definition remote_timeout_msg :: "cmd_val \<Rightarrow> int option \<Rightarrow> string \<Rightarrow> string" where
  "remote_timeout_msg command timeout lbl =
     ''Remote command '' @ [sq] @ format_cmd command @ [sq] @ '' timed out after ''
     @ str_timeout timeout @ ''s.'' @ [nl] @ ''  on '' @ lbl"

text \<open>The handler of \<^verbatim>\<open>socket.timeout\<close>: the error is built from the message and the logger.\<close>

definition remote_timed_out ::
  "('c, 'p) command_obj \<Rightarrow> 'c connection_obj \<Rightarrow> int option \<Rightarrow> string option \<Rightarrow> 'c io
    \<Rightarrow> ('p exn + 'p result) \<times> ('c, 'p) command_obj \<times> 'c io" where
  "remote_timed_out self conn timeout error_log s =
     (let (e, s') = FailedCommand CommandTimedOut
                      (remote_timeout_msg (self_command self) timeout (label conn))
                      None error_log s
      in (Inl e, self, s'))"

definition set_result :: "('c, 'p) command_obj \<Rightarrow> 'p result \<Rightarrow> ('c, 'p) command_obj" where
  "set_result self r = self\<lparr>self_result := Some r\<rparr>"

text \<open>
  \<^verbatim>\<open>RemoteCommand.execute\<close>: the four statements inside \<^verbatim>\<open>try\<close>, each filling one part of
  the result, then \<^verbatim>\<open>process_output\<close>.
\<close>

definition Remote_execute ::
  "('c, 'p) command_obj \<Rightarrow> (string \<Rightarrow> 'p exn + 'p) option \<Rightarrow> bool \<Rightarrow> bool \<Rightarrow> int option \<Rightarrow> string option
    \<Rightarrow> 'c io \<Rightarrow> ('p exn + 'p result) \<times> ('c, 'p) command_obj \<times> 'c io" where
  "Remote_execute self post_processor check stderr_is_error timeout error_log s =
     (let r0 = SimpleNamespace; self0 = set_result self r0
      in case self_connection self0 of
           None \<Rightarrow> (Inl (attribute_error ''paramiko_client''), self0, s)
         | Some conn \<Rightarrow>
             (case exec_command (paramiko_client conn) (format_cmd (self_command self0)) timeout s of
                (Chan a b c d, s1) \<Rightarrow>
                  (case a of
                     SocketTimeout \<Rightarrow> remote_timed_out self0 conn timeout error_log s1
                   | Raised k m \<Rightarrow> (Inl (Exn k m None), self0, s1)
                   | Ok u \<Rightarrow>
                  (case b of
                     SocketTimeout \<Rightarrow> remote_timed_out self0 conn timeout error_log s1
                   | Raised k m \<Rightarrow> (Inl (Exn k m None), self0, s1)
                   | Ok out \<Rightarrow>
                  (let r1 = r0\<lparr>stdout := Some out\<rparr>; self1 = set_result self0 r1
                   in case c of
                     SocketTimeout \<Rightarrow> remote_timed_out self1 conn timeout error_log s1
                   | Raised k m \<Rightarrow> (Inl (Exn k m None), self1, s1)
                   | Ok err \<Rightarrow>
                  (let r2 = r1\<lparr>stderr := Some err\<rparr>; self2 = set_result self1 r2
                   in case d of
                     SocketTimeout \<Rightarrow> remote_timed_out self2 conn timeout error_log s1
                   | Raised k m \<Rightarrow> (Inl (Exn k m None), self2, s1)
                   | Ok rc \<Rightarrow>
                       process_output (set_result self2 (r2\<lparr>returncode := Some rc\<rparr>))
                         post_processor check stderr_is_error error_log s1))))))"

section \<open>Repeated execution\<close>

text \<open>The method \<^verbatim>\<open>execute\<close> of the object's class.\<close>

definition execute ::
  "('c, 'p) command_obj \<Rightarrow> (string \<Rightarrow> 'p exn + 'p) option \<Rightarrow> bool \<Rightarrow> bool \<Rightarrow> int option \<Rightarrow> string option
    \<Rightarrow> 'c io \<Rightarrow> ('p exn + 'p result) \<times> ('c, 'p) command_obj \<times> 'c io" where
  "execute self post_processor check stderr_is_error timeout error_log s =
     (case cls self of
        LocalCommand \<Rightarrow> Local_execute self post_processor check stderr_is_error timeout error_log s
      | RemoteCommand \<Rightarrow> Remote_execute self post_processor check stderr_is_error timeout error_log s)"

definition success_msg :: "int \<Rightarrow> int \<Rightarrow> int \<Rightarrow> string" where
  "success_msg k attempts_arg slept_time =
     ''Attempt '' @ str_int k @ ''/'' @ str_int attempts_arg @ '' succeeded after ''
     @ str_int slept_time @ '' seconds.''"

definition failure_msg :: "int \<Rightarrow> int \<Rightarrow> 'p exn \<Rightarrow> int \<Rightarrow> string" where
  "failure_msg k attempts_arg e sleep_time =
     ''Attempt '' @ str_int k @ ''/'' @ str_int attempts_arg @ '' failed.''
     @ [nl] @ ''  '' @ type_name (kind e) @ '': '' @ message e
     @ [nl] @ ''  Retrying after '' @ str_int sleep_time @ '' seconds.''"

definition exhausted_msg :: "int \<Rightarrow> string" where
  "exhausted_msg attempts_arg = ''Exhausted after '' @ str_int attempts_arg @ '' attempts.''"

text \<open>
  The \<^verbatim>\<open>while\<close> loop of \<^verbatim>\<open>execute_repeat\<close> with its \<^verbatim>\<open>else\<close> branch. \<^verbatim>\<open>except Exception\<close>
  handles every exception whose class derives from \<^verbatim>\<open>Exception\<close>; any other leaves the
  loop, and so does an error that \<^verbatim>\<open>sleep\<close> raises, since the call is inside the handler.
  The loop has no bound of its own: it ends when \<open>attempts_left\<close> reaches zero or an
  attempt succeeds, and \<open>None\<close> is the loop that never ends.
\<close>

partial_function (option) repeat_loop ::
  "('c, 'p) command_obj \<Rightarrow> int \<Rightarrow> int \<Rightarrow> bool \<Rightarrow> bool \<Rightarrow> string option
    \<Rightarrow> (string \<Rightarrow> 'p exn + 'p) option \<Rightarrow> bool \<Rightarrow> int option
    \<Rightarrow> int \<Rightarrow> int \<Rightarrow> int \<Rightarrow> 'c io
    \<Rightarrow> (('p exn + 'p result) \<times> ('c, 'p) command_obj \<times> 'c io) option" where
  "repeat_loop self attempts_arg wait check stderr_is_error error_log post_processor verbose timeout
      attempts_left sleep_time slept_time s =
     (if attempts_left \<noteq> 0 then
        (case execute self post_processor check stderr_is_error timeout error_log s of
           (Inr r, self1, s1) \<Rightarrow>
             (let self2 = self1\<lparr>self_result := Some r\<rparr>;
                  (self3, s2) = repeat_message self2
                                  (success_msg (attempts_arg - attempts_left + 1) attempts_arg slept_time)
                                  verbose s1;
                  r' = r\<lparr>repeat_messages := Some (self_repeat_messages self3),
                         attempts := Some (attempts_arg - attempts_left + 1)\<rparr>
              in Some (Inr r', self3\<lparr>self_result := Some r'\<rparr>, s2))
         | (Inl e, self1, s1) \<Rightarrow>
             if is_Exception e then
               (let attempts_left' = attempts_left - 1;
                    (self2, s2) = repeat_message self1
                                    (failure_msg (attempts_arg - attempts_left') attempts_arg e sleep_time)
                                    verbose s1
                in if attempts_left' \<noteq> 0 then
                     (case sleep wait s2 of
                        Inl (k, m) \<Rightarrow> Some (Inl (Exn k m None), self2, s2)
                      | Inr s3 \<Rightarrow>
                          repeat_loop self2 attempts_arg wait check stderr_is_error error_log
                            post_processor verbose timeout attempts_left' (sleep_time * 2)
                            (slept_time + sleep_time) s3)
                   else
                     repeat_loop self2 attempts_arg wait check stderr_is_error error_log post_processor
                       verbose timeout attempts_left' sleep_time slept_time s2)
             else Some (Inl e, self1, s1))
      else
        (let (self1, s1) = repeat_message self (exhausted_msg attempts_arg) verbose s;
             (e, s2) = FailedCommand RepeatedExecutionFailed ([nl] @ self_repeat_messages self1)
                         None None s1
         in Some (Inl e, self1, s2)))"

definition execute_repeat ::
  "('c, 'p) command_obj \<Rightarrow> int \<Rightarrow> int \<Rightarrow> bool \<Rightarrow> bool \<Rightarrow> string option
    \<Rightarrow> (string \<Rightarrow> 'p exn + 'p) option \<Rightarrow> bool \<Rightarrow> int option \<Rightarrow> 'c io
    \<Rightarrow> (('p exn + 'p result) \<times> ('c, 'p) command_obj \<times> 'c io) option" where
  "execute_repeat self attempts_arg wait check stderr_is_error error_log post_processor verbose timeout s =
     (let self0 = self\<lparr>self_repeat_messages := []\<rparr>;
          (self1, s1) = repeat_message self0 [] verbose s
      in repeat_loop self1 attempts_arg wait check stderr_is_error error_log post_processor verbose
           timeout attempts_arg wait 0 s1)"

section \<open>The function run\<close>

text \<open>
  \<^verbatim>\<open>run\<close> of \<^verbatim>\<open>__init__.py\<close>, with the module loaded where \<^verbatim>\<open>paramiko\<close> can be imported, so
  that \<^verbatim>\<open>RemoteCommand\<close> is the class of \<^verbatim>\<open>remote.py\<close>. The command object is local to the
  call; the outcome and the environment are returned.
\<close>

definition run ::
  "cmd_val \<Rightarrow> 'c connection_obj option \<Rightarrow> string option \<Rightarrow> bool \<Rightarrow> bool \<Rightarrow> int option \<Rightarrow> string option
    \<Rightarrow> (string \<Rightarrow> 'p exn + 'p) option \<Rightarrow> int \<Rightarrow> int \<Rightarrow> bool \<Rightarrow> 'c io
    \<Rightarrow> (('p exn + 'p result) \<times> 'c io) option" where
  "run command connection working_directory check stderr_is_error timeout error_log post_processor
      attempts_arg wait verbose s =
     (case (case connection of
              None \<Rightarrow> LocalCommand_init command working_directory
            | Some c \<Rightarrow> RemoteCommand_init c command working_directory) of
        Inl e \<Rightarrow> Some (Inl e, s)
      | Inr cmd \<Rightarrow>
          if attempts_arg = 1 then
            (case execute cmd post_processor check stderr_is_error timeout error_log s of
               (res, cmd', s') \<Rightarrow> Some (res, s'))
          else
            (case execute_repeat cmd attempts_arg wait check stderr_is_error error_log post_processor
                    verbose timeout s of
               None \<Rightarrow> None
             | Some (res, cmd', s') \<Rightarrow> Some (res, s')))"

section \<open>postprocessors.py\<close>

text \<open>\<^verbatim>\<open>list_of_lines(s)\<close> is \<^verbatim>\<open>s.split('\n')\<close>; \<^verbatim>\<open>list_of_non_empty_lines\<close> drops the empty ones.\<close>

fun split_lines :: "string \<Rightarrow> string \<Rightarrow> string list" where
  "split_lines cur [] = [cur]"
| "split_lines cur (c # cs) = (if c = nl then cur # split_lines [] cs else split_lines (cur @ [c]) cs)"

definition list_of_lines :: "string \<Rightarrow> string list" where
  "list_of_lines s = split_lines [] s"

definition list_of_non_empty_lines :: "string \<Rightarrow> string list" where
  "list_of_non_empty_lines s = filter (\<lambda>line. line \<noteq> []) (list_of_lines s)"

section \<open>Notions used in the statements\<close>

text \<open>Two command objects that differ at most in their result and their accumulated messages.\<close>

definition same_static :: "('c, 'p) command_obj \<Rightarrow> ('c, 'p) command_obj \<Rightarrow> bool" where
  "same_static a b = (cls a = cls b \<and> self_command a = self_command b
      \<and> self_connection a = self_connection b \<and> self_working_directory a = self_working_directory b)"

text \<open>A remote command has its connection (the constructors establish this).\<close>

definition wf_cmd :: "('c, 'p) command_obj \<Rightarrow> bool" where
  "wf_cmd self = (cls self = LocalCommand \<or> self_connection self \<noteq> None)"

text \<open>The environment in which \<open>i\<close> executions have already taken place.\<close>

definition advance :: "nat \<Rightarrow> 'c io \<Rightarrow> 'c io" where
  "advance i s = s\<lparr>local_script := (\<lambda>j. local_script s (i + j)),
                   remote_script := (\<lambda>j. remote_script s (i + j))\<rparr>"

text \<open>The outcome of the execution number \<open>i\<close> (counted from 0) of the command.\<close>

definition attempt ::
  "('c, 'p) command_obj \<Rightarrow> (string \<Rightarrow> 'p exn + 'p) option \<Rightarrow> bool \<Rightarrow> bool \<Rightarrow> int option \<Rightarrow> string option
    \<Rightarrow> 'c io \<Rightarrow> nat \<Rightarrow> 'p exn + 'p result" where
  "attempt self post_processor check stderr_is_error timeout error_log s i =
     fst (execute self post_processor check stderr_is_error timeout error_log (advance i s))"

text \<open>An attempt fails when it raises an error whose class derives from \<^verbatim>\<open>Exception\<close>.\<close>

definition failing :: "'p exn + 'p result \<Rightarrow> bool" where
  "failing x = (case x of Inl e \<Rightarrow> is_Exception e | Inr r \<Rightarrow> False)"

definition script_rel :: "('c, 'p) command_obj \<Rightarrow> 'c io \<Rightarrow> nat \<Rightarrow> 'c io \<Rightarrow> bool" where
  "script_rel self s j s' =
     ((cls self = LocalCommand \<longrightarrow> local_script s' = (\<lambda>i. local_script s (j + i)))
      \<and> (cls self = RemoteCommand \<longrightarrow> remote_script s' = (\<lambda>i. remote_script s (j + i))))"

text \<open>
  The accumulated messages after the attempts that failed with the errors \<open>es\<close>, in order:
  the message of failure number \<open>i + 1\<close> announces a wait of \<open>2 ^ i * wait\<close> seconds.
\<close>

definition failure_log :: "int \<Rightarrow> int \<Rightarrow> 'p exn list \<Rightarrow> string" where
  "failure_log attempts_arg wait es =
     concat (map (\<lambda>(i, x). failure_msg (int i + 1) attempts_arg x (2 ^ i * wait) @ [nl]) (enumerate 0 es))"

text \<open>A character that the lexer adds to the current word.\<close>

definition ordinary :: "char \<Rightarrow> bool" where
  "ordinary c = (\<not> is_whitespace c \<and> \<not> is_quote c \<and> c \<noteq> bsl)"


section \<open>Sample inputs\<close>

definition demo_self :: "(nat, string list) command_obj" where
  "demo_self = \<lparr>cls = RemoteCommand, self_command = Text ''ls /nowhere'', self_connection = None,
     self_working_directory = None,
     self_result = Some \<lparr>stdout = Some [], stderr = Some ''no such file'', returncode = Some 2,
       processed = None, attempts = None, repeat_messages = None\<rparr>,
     self_repeat_messages = []\<rparr>"

definition idle_remote :: "nat \<Rightarrow> chan_outcome" where
  "idle_remote i = Chan SocketTimeout SocketTimeout SocketTimeout SocketTimeout"

definition demo_io :: "nat io" where
  "demo_io = \<lparr>local_script = (\<lambda>i. TimeoutExpired), remote_script = idle_remote,
     sleep_script = (\<lambda>i. True), trace = []\<rparr>"

definition demo_local :: "(nat, string list) command_obj" where
  "demo_local = \<lparr>cls = LocalCommand, self_command = Args [''./flaky.sh''], self_connection = None,
     self_working_directory = Some ''.'', self_result = None, self_repeat_messages = []\<rparr>"

text \<open>A command that fails on its first run and succeeds on the second.\<close>

definition flaky_io :: "nat io" where
  "flaky_io = \<lparr>local_script = (\<lambda>i. if i = 0 then Completed [] ''boom'' 1 else Completed ''done'' [] 0),
     remote_script = idle_remote,
     sleep_script = (\<lambda>i. True), trace = []\<rparr>"

text \<open>A command that exits with code 1 on every run.\<close>

definition failing_io :: "nat io" where
  "failing_io = \<lparr>local_script = (\<lambda>i. Completed [] [] 1), remote_script = idle_remote,
     sleep_script = (\<lambda>i. True), trace = []\<rparr>"

text \<open>A command that prints three lines, one of them empty, on every run.\<close>

definition lines_io :: "nat io" where
  "lines_io = \<lparr>local_script =
       (\<lambda>i. Completed (''hello world'' @ [nl, nl] @ ''how do you do?'' @ [nl]) [] 0),
     remote_script = idle_remote,
     sleep_script = (\<lambda>i. True), trace = []\<rparr>"

text \<open>A run that the user interrupts.\<close>

definition interrupt_io :: "nat io" where
  "interrupt_io = \<lparr>local_script = (\<lambda>i. ProcRaised (NotAnException ''KeyboardInterrupt'') []),
     remote_script = idle_remote,
     sleep_script = (\<lambda>i. True), trace = []\<rparr>"

definition demo_conn :: "nat connection_obj" where
  "demo_conn = \<lparr>label = ''user@login'', paramiko_client = 7\<rparr>"

definition demo_remote :: "(nat, string list) command_obj" where
  "demo_remote = \<lparr>cls = RemoteCommand, self_command = Text ''sleep 5'',
     self_connection = Some demo_conn, self_working_directory = None, self_result = None,
     self_repeat_messages = []\<rparr>"

text \<open>A remote execution whose standard output arrives and whose standard error times out.\<close>

definition partial_io :: "nat io" where
  "partial_io = \<lparr>local_script = (\<lambda>i. TimeoutExpired),
     remote_script = (\<lambda>i. Chan (Ok ()) (Ok ''partial'') SocketTimeout (Ok 0)),
     sleep_script = (\<lambda>i. True), trace = []\<rparr>"

definition bad_output :: "string \<Rightarrow> string list exn + string list" where
  "bad_output out = Inl (Exn ValueError ''bad output'' None)"

definition no_post_processor :: "(string \<Rightarrow> string list exn + string list) option" where
  "no_post_processor = None"

text \<open>The error of a local command \<^verbatim>\<open>false\<close>, which prints nothing and exits with code 1.\<close>

definition exit_1_error :: "string list exn" where
  "exit_1_error = Exn NonZeroReturnCode (nonzero_msg LocalCommand (Args [''false'']) 1 [])
     (Some \<lparr>stdout = Some [], stderr = Some [], returncode = Some 1, processed = None,
        attempts = None, repeat_messages = None\<rparr>)"

definition lines_post_processor :: "(string \<Rightarrow> string list exn + string list) option" where
  "lines_post_processor = Some (\<lambda>out. Inr (list_of_lines out))"

section \<open>Auxiliary facts\<close>

lemmas exec_defs = execute_def Local_execute_def Remote_execute_def remote_timed_out_def set_result_def
  subprocess_run_def exec_command_def
  process_output_def check_stderr_def post_process_def FailedCommand_def Let_def

lemma sleeps_append: "sleeps (a @ b) = sleeps a @ sleeps b"
  by (induction a rule: sleeps.induct) simp_all

lemma executions_append: "executions (a @ b) = executions a @ executions b"
  by (simp add: executions_def)

lemma execute_fst_cong:
  assumes "same_static self' self"
    and "cls self = LocalCommand \<Longrightarrow> local_script s' 0 = local_script s 0"
    and "cls self = RemoteCommand \<Longrightarrow> remote_script s' 0 = remote_script s 0"
  shows "fst (execute self' pp c e t lg s') = fst (execute self pp c e t lg s)"
  using assms
  by (cases "cls self")
     (simp_all add: same_static_def exec_defs
      split: option.splits sum.splits proc_outcome.splits chan_outcome.splits step.splits prod.splits)

lemma execute_self:
  "same_static (fst (snd (execute self pp c e t lg s))) self
   \<and> self_repeat_messages (fst (snd (execute self pp c e t lg s))) = self_repeat_messages self"
  by (cases "cls self")
     (simp_all add: same_static_def exec_defs
      split: option.splits sum.splits proc_outcome.splits chan_outcome.splits step.splits prod.splits)

lemma execute_sleep_script:
  "sleep_script (snd (snd (execute self pp c e t lg s))) = sleep_script s"
  by (cases "cls self")
     (simp_all add: exec_defs emit_def
      split: option.splits sum.splits proc_outcome.splits chan_outcome.splits step.splits prod.splits)

lemma execute_io:
  assumes "wf_cmd self"
  shows "local_script (snd (snd (execute self pp c e t lg s)))
           = (if cls self = LocalCommand then local_script s \<circ> Suc else local_script s)
   \<and> remote_script (snd (snd (execute self pp c e t lg s)))
           = (if cls self = RemoteCommand then remote_script s \<circ> Suc else remote_script s)
   \<and> (\<exists>evs. trace (snd (snd (execute self pp c e t lg s))) = trace s @ evs
         \<and> sleeps evs = [] \<and> length (executions evs) = 1)"
  using assms
  by (cases "cls self")
     (simp_all add: wf_cmd_def exec_defs emit_def executions_def
      split: option.splits sum.splits proc_outcome.splits chan_outcome.splits step.splits prod.splits)

lemma failure_msg_nonempty: "failure_msg k n e st \<noteq> []"
  by (simp add: failure_msg_def)

lemma success_msg_nonempty: "success_msg k n sl \<noteq> []"
  by (simp add: success_msg_def)

lemma exhausted_msg_nonempty: "exhausted_msg n \<noteq> []"
  by (simp add: exhausted_msg_def)

lemma loop_step_fail:
  assumes "execute self pp c e t lg s = (Inl x, self1, s1)" and "is_Exception x"
    and "al \<noteq> 0" and "al \<noteq> 1"
    and "sleep w (snd (repeat_message self1 (failure_msg (n - (al - 1)) n x st) v s1)) = Inr s3"
  shows "repeat_loop self n w c e lg pp v t al st sl s =
         repeat_loop (fst (repeat_message self1 (failure_msg (n - (al - 1)) n x st) v s1))
           n w c e lg pp v t (al - 1) (st * 2) (sl + st) s3"
  using assms
  by (subst repeat_loop.simps) (auto simp: Let_def split: prod.splits)

lemma loop_step_last_fail:
  assumes "execute self pp c e t lg s = (Inl x, self1, s1)" and "is_Exception x"
  shows "repeat_loop self n w c e lg pp v t 1 st sl s =
         (let self2 = fst (repeat_message self1 (failure_msg n n x st) v s1);
              s2 = snd (repeat_message self1 (failure_msg n n x st) v s1);
              self3 = fst (repeat_message self2 (exhausted_msg n) v s2);
              s3 = snd (repeat_message self2 (exhausted_msg n) v s2)
          in Some (Inl (Exn RepeatedExecutionFailed ([nl] @ self_repeat_messages self3) None), self3, s3))"
  using assms
  by (subst repeat_loop.simps, subst repeat_loop.simps)
     (simp add: Let_def FailedCommand_def split: prod.splits)

lemma loop_step_escape:
  assumes "execute self pp c e t lg s = (Inl x, self1, s1)" and "\<not> is_Exception x" and "al \<noteq> 0"
  shows "repeat_loop self n w c e lg pp v t al st sl s = Some (Inl x, self1, s1)"
  using assms
  by (subst repeat_loop.simps) simp

lemma loop_step_success:
  assumes "execute self pp c e t lg s = (Inr r, self1, s1)" and "al \<noteq> 0"
  shows "repeat_loop self n w c e lg pp v t al st sl s =
         (let self3 = fst (repeat_message (self1\<lparr>self_result := Some r\<rparr>) (success_msg (n - al + 1) n sl) v s1);
              s2 = snd (repeat_message (self1\<lparr>self_result := Some r\<rparr>) (success_msg (n - al + 1) n sl) v s1);
              r' = r\<lparr>repeat_messages := Some (self_repeat_messages self3), attempts := Some (n - al + 1)\<rparr>
          in Some (Inr r', self3\<lparr>self_result := Some r'\<rparr>, s2))"
  using assms
  by (subst repeat_loop.simps) (simp add: Let_def split: prod.splits)

lemma repeat_message_facts:
  assumes "msg \<noteq> []"
  shows "same_static (fst (repeat_message self msg v s)) self"
    and "self_repeat_messages (fst (repeat_message self msg v s)) = self_repeat_messages self @ msg @ [nl]"
    and "local_script (snd (repeat_message self msg v s)) = local_script s"
    and "remote_script (snd (repeat_message self msg v s)) = remote_script s"
    and "sleeps (trace (snd (repeat_message self msg v s))) = sleeps (trace s)"
    and "executions (trace (snd (repeat_message self msg v s))) = executions (trace s)"
    and "sleep_script (snd (repeat_message self msg v s)) = sleep_script s"
  using assms
  by (simp_all add: repeat_message_def same_static_def Let_def echo_def emit_def sleeps_append
      executions_def)

lemma sleep_accepted:
  assumes "0 \<le> w" and "w \<le> sleep_max" and "sleep_script s 0"
  shows "sleep w s = Inr (emit (Slept w) (s\<lparr>sleep_script := sleep_script s \<circ> Suc\<rparr>))"
  using assms by (simp add: sleep_def sleep_max_def)

lemma sleep_facts:
  shows "local_script (emit (Slept w) (s\<lparr>sleep_script := f\<rparr>)) = local_script s"
    and "remote_script (emit (Slept w) (s\<lparr>sleep_script := f\<rparr>)) = remote_script s"
    and "sleeps (trace (emit (Slept w) (s\<lparr>sleep_script := f\<rparr>))) = sleeps (trace s) @ [w]"
    and "executions (trace (emit (Slept w) (s\<lparr>sleep_script := f\<rparr>))) = executions (trace s)"
    and "sleep_script (emit (Slept w) (s\<lparr>sleep_script := f\<rparr>)) = f"
  by (simp_all add: emit_def sleeps_append executions_def)

lemma failure_log_snoc:
  "failure_log n w (es @ [x]) = failure_log n w es @ failure_msg (int (length es) + 1) n x (2 ^ length es * w) @ [nl]"
  by (simp add: failure_log_def enumerate_append_eq)

lemma script_rel_head:
  assumes "script_rel self s j s'"
  shows "cls self = LocalCommand \<Longrightarrow> local_script s' 0 = local_script (advance j s) 0"
    and "cls self = RemoteCommand \<Longrightarrow> remote_script s' 0 = remote_script (advance j s) 0"
  using assms by (simp_all add: script_rel_def advance_def)

lemma loop_prefix:
  assumes wf: "wf_cmd self" and w0: "0 \<le> w" and wm: "w \<le> sleep_max"
    and fails: "\<forall>i<j. failing (attempt self pp c e t lg s i)"
    and jn: "int j < n"
    and acc: "\<forall>i<j. sleep_script s i"
  shows "\<exists>self' s' es. repeat_loop self n w c e lg pp v t n w 0 s
            = repeat_loop self' n w c e lg pp v t (n - int j) (2 ^ j * w) ((2 ^ j - 1) * w) s'
         \<and> same_static self' self \<and> script_rel self s j s'
         \<and> sleep_script s' = (\<lambda>i. sleep_script s (j + i))
         \<and> sleeps (trace s') = sleeps (trace s) @ replicate j w
         \<and> length (executions (trace s')) = length (executions (trace s)) + j
         \<and> length es = j \<and> (\<forall>i<j. attempt self pp c e t lg s i = Inl (es ! i))
         \<and> self_repeat_messages self' = self_repeat_messages self @ failure_log n w es"
  using fails jn acc
proof (induction j)
  case 0
  show ?case
    by (rule exI [of _ self], rule exI [of _ s], rule exI [of _ "[]"])
       (simp add: same_static_def script_rel_def failure_log_def)
next
  case (Suc j)
  from Suc.prems have "\<forall>i<j. failing (attempt self pp c e t lg s i)" and "int j < n"
    and "\<forall>i<j. sleep_script s i" by auto
  from Suc.IH [OF this] obtain self' s' es where
    eq: "repeat_loop self n w c e lg pp v t n w 0 s
            = repeat_loop self' n w c e lg pp v t (n - int j) (2 ^ j * w) ((2 ^ j - 1) * w) s'"
    and st: "same_static self' self" and sr: "script_rel self s j s'"
    and sc: "sleep_script s' = (\<lambda>i. sleep_script s (j + i))"
    and sl: "sleeps (trace s') = sleeps (trace s) @ replicate j w"
    and ex: "length (executions (trace s')) = length (executions (trace s)) + j"
    and len: "length es = j" and es: "\<forall>i<j. attempt self pp c e t lg s i = Inl (es ! i)"
    and msgs: "self_repeat_messages self' = self_repeat_messages self @ failure_log n w es"
    by blast
  obtain res self1 s1 where run: "execute self' pp c e t lg s' = (res, self1, s1)"
    by (cases "execute self' pp c e t lg s'") auto
  have res: "res = attempt self pp c e t lg s j"
    using execute_fst_cong [OF st, of s' "advance j s" pp c e t lg] script_rel_head [OF sr] run
    by (simp add: attempt_def)
  from Suc.prems have "failing (attempt self pp c e t lg s j)" by simp
  with res obtain x where x: "res = Inl x" "is_Exception x"
    by (auto simp: failing_def split: sum.splits)
  have wf': "wf_cmd self'" using wf st by (simp add: wf_cmd_def same_static_def)
  have self1: "same_static self1 self'" "self_repeat_messages self1 = self_repeat_messages self'"
    using execute_self [of self' pp c e t lg s'] run by simp_all
  have io1: "local_script s1 = (if cls self' = LocalCommand then local_script s' \<circ> Suc else local_script s')"
    "remote_script s1 = (if cls self' = RemoteCommand then remote_script s' \<circ> Suc else remote_script s')"
    "\<exists>evs. trace s1 = trace s' @ evs \<and> sleeps evs = [] \<and> length (executions evs) = 1"
    using execute_io [OF wf', of pp c e t lg s'] run by simp_all
  let ?msg = "failure_msg (n - (n - int j - 1)) n x (2 ^ j * w)"
  let ?self2 = "fst (repeat_message self1 ?msg v s1)"
  let ?s1' = "snd (repeat_message self1 ?msg v s1)"
  let ?s2 = "emit (Slept w) (?s1'\<lparr>sleep_script := sleep_script ?s1' \<circ> Suc\<rparr>)"
  have sc1: "sleep_script s1 = sleep_script s'"
    using execute_sleep_script [of self' pp c e t lg s'] run by simp
  have sc2: "sleep_script ?s1' = sleep_script s'"
    using sc1 by (simp add: repeat_message_facts(7) [OF failure_msg_nonempty])
  have "sleep_script ?s1' 0" using sc2 sc Suc.prems(3) by simp
  then have slp: "sleep w ?s1' = Inr ?s2"
    by (rule sleep_accepted [OF w0 wm])
  have step: "repeat_loop self' n w c e lg pp v t (n - int j) (2 ^ j * w) ((2 ^ j - 1) * w) s'
      = repeat_loop ?self2 n w c e lg pp v t (n - int j - 1) (2 ^ j * w * 2) ((2 ^ j - 1) * w + 2 ^ j * w) ?s2"
    using loop_step_fail [where self = self' and s = s' and x = x and ?self1.0 = self1
        and ?s1.0 = s1 and al = "n - int j" and n = n and w = w and v = v and st = "2 ^ j * w"
        and ?s3.0 = ?s2 and sl = "(2 ^ j - 1) * w" and pp = pp and c = c and e = e and t = t
        and lg = lg] run x Suc.prems(2) slp by simp
  have a1: "n - int j - 1 = n - int (Suc j)" by simp
  have a2: "2 ^ j * w * 2 = 2 ^ Suc j * w" by simp
  have a3: "(2 ^ j - 1) * w + 2 ^ j * w = (2 ^ Suc j - 1) * w" by (simp add: algebra_simps)
  have a4: "n - (n - int j - 1) = int (length es) + 1" using len by simp
  have g1: "same_static ?self2 self"
    using repeat_message_facts(1) [OF failure_msg_nonempty, of self1] self1(1) st
    by (simp add: same_static_def)
  have g2: "script_rel self s (Suc j) ?s2"
    using sr io1(1,2) st
    by (simp add: script_rel_def sleep_facts repeat_message_facts [OF failure_msg_nonempty]
        same_static_def fun_eq_iff)
  from io1(3) obtain evs where evs: "trace s1 = trace s' @ evs" "sleeps evs = []" "length (executions evs) = 1"
    by blast
  have g3: "sleeps (trace ?s2) = sleeps (trace s) @ replicate (Suc j) w"
    using sl evs
    by (simp add: sleep_facts repeat_message_facts [OF failure_msg_nonempty] sleeps_append
        replicate_append_same)
  have g4: "length (executions (trace ?s2)) = length (executions (trace s)) + Suc j"
    using ex evs
    by (simp add: sleep_facts repeat_message_facts [OF failure_msg_nonempty] executions_append)
  have g5: "\<forall>i<Suc j. attempt self pp c e t lg s i = Inl ((es @ [x]) ! i)"
    using es len res x(1) by (auto simp: nth_append less_Suc_eq)
  have g6: "self_repeat_messages ?self2 = self_repeat_messages self @ failure_log n w (es @ [x])"
    using msgs self1(2) len
    by (simp add: repeat_message_facts(2) [OF failure_msg_nonempty] failure_log_snoc a4)
  have g7: "sleep_script ?s2 = (\<lambda>i. sleep_script s (Suc j + i))"
    using sc2 sc by (simp add: sleep_facts fun_eq_iff)
  show ?case
    apply (rule exI [of _ ?self2], rule exI [of _ ?s2], rule exI [of _ "es @ [x]"])
    using eq step g1 g2 g7 g3 g4 g5 g6 len
    by (simp only: a1 a2 a3 length_append_singleton simp_thms)
qed

lemma execute_repeat_loop:
  "execute_repeat self n w c e lg pp v t s
     = repeat_loop (self\<lparr>self_repeat_messages := []\<rparr>) n w c e lg pp v t n w 0 s"
  by (simp add: execute_repeat_def repeat_message_def Let_def)

lemma attempt_reset:
  "attempt (self\<lparr>self_repeat_messages := m\<rparr>) pp c e t lg s i = attempt self pp c e t lg s i"
  unfolding attempt_def by (rule execute_fst_cong) (simp_all add: same_static_def)

lemma wf_cmd_reset: "wf_cmd (self\<lparr>self_repeat_messages := m\<rparr>) = wf_cmd self"
  by (simp add: wf_cmd_def)

lemma same_static_reset: "same_static a (self\<lparr>self_repeat_messages := m\<rparr>) = same_static a self"
  by (simp add: same_static_def)

lemma script_rel_reset: "script_rel (self\<lparr>self_repeat_messages := m\<rparr>) s j s' = script_rel self s j s'"
  by (simp add: script_rel_def)

lemma execute_repeat_prefix:
  assumes wf: "wf_cmd self" and w0: "0 \<le> w" and wm: "w \<le> sleep_max"
    and fails: "\<forall>i<j. failing (attempt self pp c e t lg s i)"
    and jn: "int j < n"
    and acc: "\<forall>i<j. sleep_script s i"
  obtains self' s' es where
    "execute_repeat self n w c e lg pp v t s
       = repeat_loop self' n w c e lg pp v t (n - int j) (2 ^ j * w) ((2 ^ j - 1) * w) s'"
    and "same_static self' self" and "script_rel self s j s'"
    and "sleeps (trace s') = sleeps (trace s) @ replicate j w"
    and "length (executions (trace s')) = length (executions (trace s)) + j"
    and "length es = j" and "\<forall>i<j. attempt self pp c e t lg s i = Inl (es ! i)"
    and "self_repeat_messages self' = failure_log n w es"
proof -
  let ?self0 = "self\<lparr>self_repeat_messages := []\<rparr>"
  have "\<forall>i<j. failing (attempt ?self0 pp c e t lg s i)"
    using fails by (simp add: attempt_reset)
  from loop_prefix [of ?self0 w j pp c e t lg s n v, OF _ w0 wm this jn acc] wf
  show thesis
    using that
    by (auto simp: wf_cmd_reset attempt_reset same_static_reset script_rel_reset execute_repeat_loop)
qed

lemma attempt_in_loop:
  assumes "wf_cmd self" and "same_static self' self" and "script_rel self s j s'"
  obtains self1 s1 where
    "execute self' pp c e t lg s' = (attempt self pp c e t lg s j, self1, s1)"
    and "same_static self1 self" and "self_repeat_messages self1 = self_repeat_messages self'"
    and "sleeps (trace s1) = sleeps (trace s')"
    and "length (executions (trace s1)) = length (executions (trace s')) + 1"
proof -
  obtain res self1 s1 where run: "execute self' pp c e t lg s' = (res, self1, s1)"
    by (cases "execute self' pp c e t lg s'") auto
  have res: "res = attempt self pp c e t lg s j"
    using execute_fst_cong [OF assms(2), of s' "advance j s" pp c e t lg] script_rel_head [OF assms(3)] run
    by (simp add: attempt_def)
  have wf': "wf_cmd self'"
    using assms(1,2) by (simp add: wf_cmd_def same_static_def)
  have a: "same_static self1 self" "self_repeat_messages self1 = self_repeat_messages self'"
    using execute_self [of self' pp c e t lg s'] run assms(2) by (simp_all add: same_static_def)
  have "\<exists>evs. trace s1 = trace s' @ evs \<and> sleeps evs = [] \<and> length (executions evs) = 1"
    using execute_io [OF wf', of pp c e t lg s'] run by simp
  then have b: "sleeps (trace s1) = sleeps (trace s')"
    "length (executions (trace s1)) = length (executions (trace s')) + 1"
    by (auto simp: sleeps_append executions_append)
  show thesis using that [of self1 s1] run res a b by simp
qed

lemma repeat_escape:
  assumes wf: "wf_cmd self" and k: "1 \<le> k" "int k \<le> n"
    and w0: "0 \<le> w" and wm: "w \<le> sleep_max" and acc: "\<forall>i<k - 1. sleep_script s i"
    and fails: "\<forall>i<k - 1. failing (attempt self pp c e t lg s i)"
    and esc: "attempt self pp c e t lg s (k - 1) = Inl x" "\<not> is_Exception x"
  shows "\<exists>self' s'. execute_repeat self n w c e lg pp v t s = Some (Inl x, self', s')
      \<and> sleeps (trace s') = sleeps (trace s) @ replicate (k - 1) w
      \<and> length (executions (trace s')) = length (executions (trace s)) + k"
proof -
  from k have jn: "int (k - 1) < n" by simp
  from execute_repeat_prefix [OF wf w0 wm fails jn acc, of v] obtain self' s' where
    eq: "execute_repeat self n w c e lg pp v t s
       = repeat_loop self' n w c e lg pp v t (n - int (k - 1)) (2 ^ (k - 1) * w) ((2 ^ (k - 1) - 1) * w) s'"
    and st: "same_static self' self" and sr: "script_rel self s (k - 1) s'"
    and sl: "sleeps (trace s') = sleeps (trace s) @ replicate (k - 1) w"
    and ex: "length (executions (trace s')) = length (executions (trace s)) + (k - 1)"
    by blast
  from attempt_in_loop [OF wf st sr, of pp c e t lg] obtain self1 s1 where
    run: "execute self' pp c e t lg s' = (attempt self pp c e t lg s (k - 1), self1, s1)"
    and sl1: "sleeps (trace s1) = sleeps (trace s')"
    and ex1: "length (executions (trace s1)) = length (executions (trace s')) + 1"
    by blast
  have al: "n - int (k - 1) \<noteq> 0" using k by simp
  show ?thesis
    apply (rule exI [of _ self1], rule exI [of _ s1])
    using loop_step_escape [of self' pp c e t lg s' x self1 s1 "n - int (k - 1)" n w v
        "2 ^ (k - 1) * w" "(2 ^ (k - 1) - 1) * w"] run esc al eq sl sl1 ex ex1 k
    by simp
qed

lemma repeat_exhausted:
  assumes wf: "wf_cmd self" and n: "1 \<le> n"
    and w0: "0 \<le> w" and wm: "w \<le> sleep_max" and acc: "\<forall>i<nat n - 1. sleep_script s i"
    and fails: "\<forall>i<nat n. failing (attempt self pp c e t lg s i)"
  shows "\<exists>self' s' es. execute_repeat self n w c e lg pp v t s
        = Some (Inl (Exn RepeatedExecutionFailed
                      ([nl] @ failure_log n w es @ exhausted_msg n @ [nl]) None), self', s')
      \<and> length es = nat n \<and> (\<forall>i<nat n. attempt self pp c e t lg s i = Inl (es ! i))
      \<and> sleeps (trace s') = sleeps (trace s) @ replicate (nat n - 1) w
      \<and> length (executions (trace s')) = length (executions (trace s)) + nat n"
proof -
  define j where "j = nat n - 1"
  from n have jn: "int j < n" and nj: "n - int j = 1" "nat n = Suc j" by (simp_all add: j_def)
  from fails have fj: "\<forall>i<j. failing (attempt self pp c e t lg s i)" by (simp add: j_def)
  from acc have aj: "\<forall>i<j. sleep_script s i" by (simp add: j_def)
  from execute_repeat_prefix [OF wf w0 wm fj jn aj, of v] obtain self' s' es where
    eq: "execute_repeat self n w c e lg pp v t s
       = repeat_loop self' n w c e lg pp v t (n - int j) (2 ^ j * w) ((2 ^ j - 1) * w) s'"
    and st: "same_static self' self" and sr: "script_rel self s j s'"
    and sl: "sleeps (trace s') = sleeps (trace s) @ replicate j w"
    and ex: "length (executions (trace s')) = length (executions (trace s)) + j"
    and len: "length es = j" and es: "\<forall>i<j. attempt self pp c e t lg s i = Inl (es ! i)"
    and msgs: "self_repeat_messages self' = failure_log n w es"
    by blast
  from attempt_in_loop [OF wf st sr, of pp c e t lg] obtain self1 s1 where
    run: "execute self' pp c e t lg s' = (attempt self pp c e t lg s j, self1, s1)"
    and m1: "self_repeat_messages self1 = self_repeat_messages self'"
    and sl1: "sleeps (trace s1) = sleeps (trace s')"
    and ex1: "length (executions (trace s1)) = length (executions (trace s')) + 1"
    by blast
  from fails nj have "failing (attempt self pp c e t lg s j)" by simp
  then obtain x where x: "attempt self pp c e t lg s j = Inl x" "is_Exception x"
    by (auto simp: failing_def split: sum.splits)
  have g5: "\<forall>i<Suc j. attempt self pp c e t lg s i = Inl ((es @ [x]) ! i)"
    using es len x(1) by (auto simp: nth_append less_Suc_eq)
  have lg: "failure_log n w (es @ [x]) = failure_log n w es @ failure_msg n n x (2 ^ j * w) @ [nl]"
  proof -
    from nj have "n = int j + 1" by simp
    then show ?thesis using len by (simp add: failure_log_snoc)
  qed
  let ?m1 = "repeat_message self1 (failure_msg n n x (2 ^ j * w)) v s1"
  let ?m2 = "repeat_message (fst ?m1) (exhausted_msg n) v (snd ?m1)"
  show ?thesis
    apply (rule exI [of _ "fst ?m2"], rule exI [of _ "snd ?m2"], rule exI [of _ "es @ [x]"])
    using loop_step_last_fail [of self' pp c e t lg s' x self1 s1 n w v "2 ^ j * w" "(2 ^ j - 1) * w"]
      run x eq nj g5 lg len msgs m1 sl sl1 ex ex1
    by (simp add: Let_def repeat_message_facts [OF failure_msg_nonempty]
        repeat_message_facts [OF exhausted_msg_nonempty])
qed





lemma quoted_segment:
  assumes "q \<notin> set seg" and "q = dq \<longrightarrow> bsl \<notin> set seg"
  shows "read_tokens (Qt q) tok quoted (seg @ q # rest) = read_tokens Wd (tok @ seg) True rest"
  using assms
proof (induction seg arbitrary: tok quoted)
  case Nil
  show ?case by simp
next
  case (Cons c seg)
  then show ?case by auto
qed

lemma word_chars:
  assumes "list_all ordinary w"
  shows "read_tokens Wd tok quoted (w @ rest) = read_tokens Wd (tok @ w) quoted rest"
  using assms
  by (induction w arbitrary: tok) (simp_all add: ordinary_def)

lemma word_start:
  assumes "list_all ordinary w" and "w \<noteq> []"
  shows "read_tokens Sp tok quoted (w @ rest) = read_tokens Wd w quoted rest"
proof -
  from assms obtain c w' where w: "w = c # w'" by (cases w) auto
  with assms(1) have "ordinary c" "list_all ordinary w'" by simp_all
  then show ?thesis
    using word_chars [of w' "[c]" quoted rest] by (simp add: w ordinary_def)
qed






lemma word_end:
  assumes "d \<noteq> [] \<or> quoted"
  shows "read_tokens Wd d quoted [] = Inr [d]"
    and "read_tokens Wd d quoted (CHR '' '' # rest) = map_sum (\<lambda>e. e) ((#) d) (read_tokens Sp [] False rest)"
  using assms by (auto simp: emit_token_def is_whitespace_def split: sum.splits)

lemma word_then_space:
  assumes "list_all ordinary w" and "w \<noteq> []"
  shows "read_tokens Sp [] False (w @ CHR '' '' # rest) = map_sum (\<lambda>e. e) ((#) w) (read_tokens Sp [] False rest)"
proof -
  have "read_tokens Sp [] False (w @ CHR '' '' # rest) = read_tokens Wd w False (CHR '' '' # rest)"
    by (rule word_start [OF assms])
  also have "\<dots> = map_sum (\<lambda>e. e) ((#) w) (read_tokens Sp [] False rest)"
    by (rule word_end(2)) (simp add: assms(2))
  finally show ?thesis .
qed




lemmas text_defs = sq_def dq_def bsl_def nl_def tab_def cr_def str_int_def str_nat.simps
  str_timeout_def repr_list_def repr_str_def repr_char_def hex_digit_def
  nonzero_msg_def stderr_msg_def local_timeout_msg_def remote_timeout_msg_def
  failure_msg_def success_msg_def exhausted_msg_def

lemmas lex_defs = shlex_split_def shlex_quote_def replace_sq_def is_safe_char_def
  is_whitespace_def is_quote_def emit_token_def

lemmas run_defs = run_def LocalCommand_init_def RemoteCommand_init_def CommandBase_init_def
  execute_repeat_def repeat_message_def repeat_loop.simps exec_defs SimpleNamespace_def
  emit_def sleep_def sleep_max_def echo_def executions_def

lemma LocalCommand_init_cls:
  assumes "LocalCommand_init command wd = Inr cmd"
  shows "cls cmd = LocalCommand" and "self_working_directory cmd = wd" and "self_connection cmd = None"
  using assms
  by (auto simp: LocalCommand_init_def CommandBase_init_def split: cmd_val.splits sum.splits)

lemma RemoteCommand_init_cls:
  assumes "RemoteCommand_init conn command wd = Inr cmd"
  shows "cls cmd = RemoteCommand" and "self_working_directory cmd = wd" and "self_connection cmd = Some conn"
  using assms
  by (auto simp: RemoteCommand_init_def CommandBase_init_def Let_def split: option.splits if_splits)

lemma FailedCommand_executions:
  "executions (trace (snd (FailedCommand k m r lg s))) = executions (trace s)"
  by (simp add: FailedCommand_def emit_def executions_def split: option.splits)

lemma process_output_executions:
  assumes "process_output self pp c e lg s = (res, self', s')"
  shows "executions (trace s') = executions (trace s)"
  using assms
  by (auto simp: process_output_def check_stderr_def post_process_def FailedCommand_def emit_def
      executions_def Let_def split: option.splits sum.splits if_splits)

lemma Local_execute_event:
  "executions (trace (snd (snd (Local_execute self pp c e t lg s))))
     = executions (trace s) @ [SubprocessRun (self_command self) (self_working_directory self) t]"
  by (auto simp: Local_execute_def subprocess_run_def FailedCommand_def emit_def executions_def Let_def
      split: option.splits sum.splits proc_outcome.splits prod.splits
      dest!: process_output_executions)

lemma remote_timed_out_executions:
  "executions (trace (snd (snd (remote_timed_out self conn t lg s)))) = executions (trace s)"
  by (simp add: remote_timed_out_def FailedCommand_def emit_def executions_def split: option.splits)

lemma Remote_execute_event:
  assumes "self_connection self = Some conn"
  shows "executions (trace (snd (snd (Remote_execute self pp c e t lg s))))
     = executions (trace s) @ [ExecCommand (paramiko_client conn) (format_cmd (self_command self)) t]"
proof -
  obtain a b c' d s1 where ec: "exec_command (paramiko_client conn) (format_cmd (self_command self)) t s
      = (Chan a b c' d, s1)"
    by (cases "exec_command (paramiko_client conn) (format_cmd (self_command self)) t s")
       (metis chan_outcome.exhaust)
  then have s1: "executions (trace s1) = executions (trace s)
      @ [ExecCommand (paramiko_client conn) (format_cmd (self_command self)) t]"
    by (auto simp: exec_command_def emit_def executions_def)
  have po: "executions (trace (snd (snd (process_output x pp c e lg s1)))) = executions (trace s1)" for x
    using process_output_executions [of x pp c e lg s1]
    by (cases "process_output x pp c e lg s1") auto
  show ?thesis
    using assms ec
    by (simp add: Remote_execute_def set_result_def Let_def remote_timed_out_executions po s1
        split: step.splits)
qed

section \<open>The retry loop\<close>

text \<open>
  C1. The documentation of \<^verbatim>\<open>execute_repeat\<close> and the claim say that the wait doubles after
  every failure, so that a command failing on all of 3 attempts with an initial wait of 1
  second sleeps 1 and then 2 seconds, 3 in total (\<^verbatim>\<open>maximum_wait_time\<close>). The loop keeps the
  doubled value in \<open>sleep_time\<close> and prints it in its messages, but passes \<open>wait\<close> to
  \<^verbatim>\<open>sleep\<close>: the command sleeps 1 and 1 second, 2 in total, while the messages announce
  waits of 1, 2 and 4 seconds. The log lists the 3 attempts.
\<close>

theorem backoff_sleeps_initial_wait:
  "map_option (\<lambda>(res, s). (res, trace s))
     (run (Text ''false'') None (Some ''.'') True False None None no_post_processor 3 1 False failing_io)
   = Some (Inl (Exn RepeatedExecutionFailed
                 ([nl]
                  @ failure_msg 1 3 exit_1_error 1 @ [nl]
                  @ failure_msg 2 3 exit_1_error 2 @ [nl]
                  @ failure_msg 3 3 exit_1_error 4 @ [nl]
                  @ exhausted_msg 3 @ [nl])
                 None),
           [SubprocessRun (Args [''false'']) (Some ''.'') None, Slept 1,
            SubprocessRun (Args [''false'']) (Some ''.'') None, Slept 1,
            SubprocessRun (Args [''false'']) (Some ''.'') None])
   \<and> maximum_wait_time 3 1 = 3"
  by (simp add: run_defs lex_defs text_defs failing_io_def no_post_processor_def
      exit_1_error_def maximum_wait_time_def)

text \<open>
  A negative wait: \<^verbatim>\<open>sleep\<close> raises \<^verbatim>\<open>ValueError\<close> inside the handler of the first failure,
  and that error leaves \<^verbatim>\<open>execute_repeat\<close> after one execution, although the second run of
  the command would have succeeded.
\<close>

lemma negative_wait_leaves_the_loop:
  "map_option (\<lambda>(res, self', s'). (res, length (executions (trace s'))))
     (execute_repeat demo_local 3 (- 1) True False None no_post_processor False None flaky_io)
   = Some (Inl (Exn ValueError ''sleep length must be non-negative'' None), 1)"
  by (simp add: run_defs demo_local_def flaky_io_def no_post_processor_def)

text \<open>
  C2, as the claim states it: an error raised by the post-processor would leave
  \<^verbatim>\<open>execute_repeat\<close> at once. It does not: with 2 attempts and a post-processor that raises
  \<^verbatim>\<open>ValueError\<close>, the command is executed twice and \<^verbatim>\<open>RepeatedExecutionFailed\<close> is raised,
  its log naming the \<^verbatim>\<open>ValueError\<close> of each attempt.
\<close>

theorem post_processor_error_is_retried:
  "map_option (\<lambda>(res, s). (res, length (executions (trace s))))
     (run (Text ''printf'') None (Some ''.'') True False None None (Some bad_output) 2 0 False lines_io)
   = Some (Inl (Exn RepeatedExecutionFailed
                 ([nl] @ failure_msg 1 2 (Exn ValueError ''bad output'' None) 0 @ [nl]
                  @ failure_msg 2 2 (Exn ValueError ''bad output'' None) 0 @ [nl]
                  @ exhausted_msg 2 @ [nl])
                 None),
           2)"
  by (simp add: run_defs lex_defs text_defs lines_io_def bad_output_def)

text \<open>
  C2, amended. With a wait that \<^verbatim>\<open>sleep\<close> accepts (not negative, not beyond \<open>sleep_max\<close>,
  the clock accepting the sleep after each failure but the last), \<^verbatim>\<open>execute_repeat\<close>
  catches every error of an attempt whose class derives from \<^verbatim>\<open>Exception\<close>, whatever its
  kind: when each of the \<open>n\<close> attempts fails so, the command has been executed \<open>n\<close> times,
  \<^verbatim>\<open>RepeatedExecutionFailed\<close> is raised only then, and its text logs the error of each
  attempt. An error whose class does not derive from \<^verbatim>\<open>Exception\<close> leaves
  \<^verbatim>\<open>execute_repeat\<close> at once, at the attempt that raised it.
\<close>

theorem execute_repeat_catches_every_Exception:
  assumes "wf_cmd self" and "1 \<le> n"
    and "0 \<le> w" and "w \<le> sleep_max" and "\<forall>i<nat n - 1. sleep_script s i"
  shows "((\<forall>i<nat n. failing (attempt self pp c e t lg s i)) \<longrightarrow>
           (\<exists>self' s' es. execute_repeat self n w c e lg pp v t s
                = Some (Inl (Exn RepeatedExecutionFailed
                              ([nl] @ failure_log n w es @ exhausted_msg n @ [nl]) None), self', s')
              \<and> length es = nat n \<and> (\<forall>i<nat n. attempt self pp c e t lg s i = Inl (es ! i))
              \<and> length (executions (trace s')) = length (executions (trace s)) + nat n))
       \<and> (\<forall>k x. 1 \<le> k \<and> int k \<le> n \<and> (\<forall>i<k - 1. failing (attempt self pp c e t lg s i))
              \<and> attempt self pp c e t lg s (k - 1) = Inl x \<and> \<not> is_Exception x \<longrightarrow>
           (\<exists>self' s'. execute_repeat self n w c e lg pp v t s = Some (Inl x, self', s')
              \<and> length (executions (trace s')) = length (executions (trace s)) + k))"
proof (intro conjI impI allI)
  assume "\<forall>i<nat n. failing (attempt self pp c e t lg s i)"
  from repeat_exhausted [OF assms(1-5) this, of v]
  show "\<exists>self' s' es. execute_repeat self n w c e lg pp v t s
                = Some (Inl (Exn RepeatedExecutionFailed
                              ([nl] @ failure_log n w es @ exhausted_msg n @ [nl]) None), self', s')
              \<and> length es = nat n \<and> (\<forall>i<nat n. attempt self pp c e t lg s i = Inl (es ! i))
              \<and> length (executions (trace s')) = length (executions (trace s)) + nat n"
    by blast
next
  fix k x
  assume a: "1 \<le> k \<and> int k \<le> n \<and> (\<forall>i<k - 1. failing (attempt self pp c e t lg s i))
              \<and> attempt self pp c e t lg s (k - 1) = Inl x \<and> \<not> is_Exception x"
  then have k: "1 \<le> k" "int k \<le> n" and f: "\<forall>i<k - 1. failing (attempt self pp c e t lg s i)"
    and x: "attempt self pp c e t lg s (k - 1) = Inl x" "\<not> is_Exception x"
    by blast+
  from k assms(5) have acc: "\<forall>i<k - 1. sleep_script s i" by auto
  from repeat_escape [OF assms(1) k assms(3,4) acc f x, of v]
  show "\<exists>self' s'. execute_repeat self n w c e lg pp v t s = Some (Inl x, self', s')
              \<and> length (executions (trace s')) = length (executions (trace s)) + k"
    by blast
qed

theorem execute_repeat_catches_every_Exception_witness:
  "(\<exists>m self' s'. execute_repeat demo_local 2 0 True False None (Some bad_output) False None lines_io
        = Some (Inl (Exn RepeatedExecutionFailed m None), self', s')
      \<and> length (executions (trace s')) = 2)
   \<and> (\<exists>self' s'. execute_repeat demo_local 2 0 True False None (Some bad_output) False None interrupt_io
        = Some (Inl (Exn (NotAnException ''KeyboardInterrupt'') [] None), self', s')
      \<and> length (executions (trace s')) = 1)"
proof -
  have wf: "wf_cmd demo_local" by (simp add: wf_cmd_def demo_local_def)
  have n: "(1::int) \<le> 2" "(0::int) \<le> 0" "(0::int) \<le> sleep_max"
    by (simp_all add: sleep_max_def)
  have a1: "\<forall>i<nat 2 - 1. sleep_script lines_io i" "\<forall>i<nat 2 - 1. sleep_script interrupt_io i"
    by (simp_all add: lines_io_def interrupt_io_def)
  note T1 = execute_repeat_catches_every_Exception [OF wf n a1(1),
      of "Some bad_output" True False None None False]
  note T2 = execute_repeat_catches_every_Exception [OF wf n a1(2),
      of "Some bad_output" True False None None False]
  have tr: "executions (trace lines_io) = []" "executions (trace interrupt_io) = []"
    by (simp_all add: lines_io_def interrupt_io_def executions_def)
  have f: "\<forall>i<nat 2. failing (attempt demo_local (Some bad_output) True False None None lines_io i)"
    by (simp add: failing_def attempt_def advance_def exec_defs demo_local_def lines_io_def
        bad_output_def SimpleNamespace_def emit_def)
  from T1 [THEN conjunct1, THEN mp, OF f]
  obtain self1 s1 and es :: "string list exn list" where
    "execute_repeat demo_local 2 0 True False None (Some bad_output) False None lines_io
        = Some (Inl (Exn RepeatedExecutionFailed
                      ([nl] @ failure_log 2 0 es @ exhausted_msg 2 @ [nl]) None), self1, s1)"
    "length (executions (trace s1)) = length (executions (trace lines_io)) + nat 2"
    by blast
  then have A: "\<exists>m self' s'. execute_repeat demo_local 2 0 True False None (Some bad_output) False None lines_io
        = Some (Inl (Exn RepeatedExecutionFailed m None), self', s')
      \<and> length (executions (trace s')) = 2"
    by (simp add: tr)
  have g: "1 \<le> (1::nat) \<and> int 1 \<le> 2
      \<and> (\<forall>i<1 - 1. failing (attempt demo_local (Some bad_output) True False None None interrupt_io i))
      \<and> attempt demo_local (Some bad_output) True False None None interrupt_io (1 - 1)
          = Inl (Exn (NotAnException ''KeyboardInterrupt'') [] None)
      \<and> \<not> is_Exception (Exn (NotAnException ''KeyboardInterrupt'') [] None :: string list exn)"
    by (simp add: attempt_def advance_def exec_defs demo_local_def interrupt_io_def
        SimpleNamespace_def emit_def)
  from T2 [THEN conjunct2, THEN spec, THEN spec, THEN mp, OF g]
  have B: "\<exists>self' s'. execute_repeat demo_local 2 0 True False None (Some bad_output) False None interrupt_io
        = Some (Inl (Exn (NotAnException ''KeyboardInterrupt'') [] None), self', s')
      \<and> length (executions (trace s')) = 1"
    by (simp add: tr)
  from A B show ?thesis by blast
qed

text \<open>
  C5. For \<open>n \<ge> 1\<close> attempts and a wait that \<^verbatim>\<open>sleep\<close> accepts (not negative, not beyond
  \<open>sleep_max\<close>, the clock accepting the sleep after each failure), when the first \<open>k - 1\<close>
  attempts fail and attempt \<open>k\<close> (\<open>1 \<le> k \<le> n\<close>) raises nothing, \<^verbatim>\<open>execute_repeat\<close>
  returns the result of that attempt with \<open>attempts = k\<close> and the accumulated messages: the
  command has been executed \<open>k\<close> times and \<^verbatim>\<open>sleep\<close> called \<open>k - 1\<close> times, once after each
  failure.
\<close>

theorem execute_repeat_first_success:
  assumes wf: "wf_cmd self" and k: "1 \<le> k" "int k \<le> n"
    and w0: "0 \<le> w" and wm: "w \<le> sleep_max" and acc: "\<forall>i<k - 1. sleep_script s i"
    and fails: "\<forall>i<k - 1. failing (attempt self pp c e t lg s i)"
    and ok: "attempt self pp c e t lg s (k - 1) = Inr r0"
  shows "\<exists>r self' s' es. execute_repeat self n w c e lg pp v t s = Some (Inr r, self', s')
      \<and> length es = k - 1 \<and> (\<forall>i<k - 1. attempt self pp c e t lg s i = Inl (es ! i))
      \<and> r = r0\<lparr>repeat_messages := Some (failure_log n w es
                   @ success_msg (int k) n ((2 ^ (k - 1) - 1) * w) @ [nl]),
               attempts := Some (int k)\<rparr>
      \<and> self_result self' = Some r
      \<and> sleeps (trace s') = sleeps (trace s) @ replicate (k - 1) w
      \<and> length (executions (trace s')) = length (executions (trace s)) + k"
proof -
  from k have jn: "int (k - 1) < n" by simp
  from execute_repeat_prefix [OF wf w0 wm fails jn acc, of v] obtain self' s' es where
    eq: "execute_repeat self n w c e lg pp v t s
       = repeat_loop self' n w c e lg pp v t (n - int (k - 1)) (2 ^ (k - 1) * w) ((2 ^ (k - 1) - 1) * w) s'"
    and st: "same_static self' self" and sr: "script_rel self s (k - 1) s'"
    and sl: "sleeps (trace s') = sleeps (trace s) @ replicate (k - 1) w"
    and ex: "length (executions (trace s')) = length (executions (trace s)) + (k - 1)"
    and len: "length es = k - 1" and es: "\<forall>i<k - 1. attempt self pp c e t lg s i = Inl (es ! i)"
    and msgs: "self_repeat_messages self' = failure_log n w es"
    by blast
  from attempt_in_loop [OF wf st sr, of pp c e t lg] obtain self1 s1 where
    run: "execute self' pp c e t lg s' = (attempt self pp c e t lg s (k - 1), self1, s1)"
    and m1: "self_repeat_messages self1 = self_repeat_messages self'"
    and sl1: "sleeps (trace s1) = sleeps (trace s')"
    and ex1: "length (executions (trace s1)) = length (executions (trace s')) + 1"
    by blast
  have al: "n - int (k - 1) \<noteq> 0" "n - (n - int (k - 1)) + 1 = int k" using k by simp_all
  let ?m = "repeat_message (self1\<lparr>self_result := Some r0\<rparr>)
              (success_msg (int k) n ((2 ^ (k - 1) - 1) * w)) v s1"
  let ?r = "r0\<lparr>repeat_messages := Some (self_repeat_messages (fst ?m)), attempts := Some (int k)\<rparr>"
  show ?thesis
    apply (rule exI [of _ ?r], rule exI [of _ "(fst ?m)\<lparr>self_result := Some ?r\<rparr>"],
        rule exI [of _ "snd ?m"], rule exI [of _ es])
    using loop_step_success [of self' pp c e t lg s' r0 self1 s1 "n - int (k - 1)" n w v
        "2 ^ (k - 1) * w" "(2 ^ (k - 1) - 1) * w"] run ok al eq len es msgs m1 sl sl1 ex ex1 k
    by (simp add: Let_def repeat_message_facts [OF success_msg_nonempty])
qed

theorem execute_repeat_first_success_witness:
  "\<exists>r self' s'. execute_repeat demo_local 3 1 True False None no_post_processor False None flaky_io
       = Some (Inr r, self', s')
     \<and> attempts r = Some 2 \<and> sleeps (trace s') = [1] \<and> length (executions (trace s')) = 2"
proof -
  have h1: "wf_cmd demo_local" by (simp add: wf_cmd_def demo_local_def)
  have h2: "\<forall>i<2 - 1. failing (attempt demo_local no_post_processor True False None None flaky_io i)"
    by (simp add: failing_def attempt_def advance_def exec_defs demo_local_def flaky_io_def
        no_post_processor_def SimpleNamespace_def emit_def)
  have "attempt demo_local no_post_processor True False None None flaky_io 1 =
    Inr \<lparr>stdout = Some ''done'', stderr = Some [], returncode = Some 0, processed = None,
      attempts = None, repeat_messages = None\<rparr>"
    by (simp add: attempt_def advance_def exec_defs demo_local_def flaky_io_def
        no_post_processor_def SimpleNamespace_def emit_def)
  then have h3: "attempt demo_local no_post_processor True False None None flaky_io (2 - 1) =
    Inr \<lparr>stdout = Some ''done'', stderr = Some [], returncode = Some 0, processed = None,
      attempts = None, repeat_messages = None\<rparr>"
    by simp
  have h4: "(0::int) \<le> 1" "(1::int) \<le> sleep_max" "\<forall>i<2 - 1. sleep_script flaky_io i"
    by (simp_all add: sleep_max_def flaky_io_def)
  from execute_repeat_first_success [OF h1 _ _ h4 h2 h3, of 3 False]
  obtain r self' s' where
    "execute_repeat demo_local 3 1 True False None no_post_processor False None flaky_io
       = Some (Inr r, self', s')"
    "attempts r = Some 2" "sleeps (trace s') = sleeps (trace flaky_io) @ replicate (2 - 1) 1"
    "length (executions (trace s')) = length (executions (trace flaky_io)) + 2"
    by auto
  then show ?thesis by (simp add: flaky_io_def executions_def)
qed

section \<open>Errors and their results\<close>

text \<open>
  C3. \<^verbatim>\<open>FailedCommand\<close> documents that every error stores the result of the command, and
  the local executor passes the result object to \<^verbatim>\<open>CommandTimedOut\<close>. The remote executor
  does not: when the channel times out after the standard output has been read, the command
  object holds a result with that output, and the error raised carries no result. Nor does
  \<^verbatim>\<open>execute_repeat\<close>: the \<^verbatim>\<open>RepeatedExecutionFailed\<close> it raises carries no result, while
  the command object holds the result of the last attempt.
\<close>

theorem remote_timeout_and_exhaustion_carry_no_result:
  "(case Remote_execute demo_remote no_post_processor True False (Some 1) None partial_io of
      (res, self', s') \<Rightarrow> (res, self_result self'))
     = (Inl (Exn CommandTimedOut (remote_timeout_msg (Text ''sleep 5'') (Some 1) ''user@login'') None),
        Some \<lparr>stdout = Some ''partial'', stderr = None, returncode = None, processed = None,
          attempts = None, repeat_messages = None\<rparr>)
   \<and> (case Local_execute demo_local no_post_processor True False (Some 1) None demo_io of
      (res, self', s') \<Rightarrow> (res, self_result self'))
     = (Inl (Exn CommandTimedOut (local_timeout_msg (Args [''./flaky.sh'']) (Some 1))
              (Some SimpleNamespace)),
        Some SimpleNamespace)
   \<and> map_option (\<lambda>(res, self', s'). (kind (projl res), attached (projl res), self_result self'))
       (execute_repeat demo_local 2 0 True False None no_post_processor False None failing_io)
     = Some (RepeatedExecutionFailed, None,
        Some \<lparr>stdout = Some [], stderr = Some [], returncode = Some 1, processed = None,
          attempts = None, repeat_messages = None\<rparr>)"
  by (simp add: run_defs text_defs demo_remote_def demo_conn_def partial_io_def demo_local_def
      demo_io_def failing_io_def no_post_processor_def)

section \<open>The output checker\<close>

text \<open>
  C4. On a result whose output texts and exit code are set, \<^verbatim>\<open>process_output\<close> checks in a
  fixed order and the first failure wins: with \<open>check\<close> and a non-zero exit code it raises
  \<^verbatim>\<open>NonZeroReturnCode\<close>, whose text holds the command, the exit code and the standard error;
  otherwise with \<open>stderr_is_error\<close> and a non-empty standard error it raises \<^verbatim>\<open>Stderr\<close>;
  otherwise the post-processor, when given, is applied to the standard output and its value
  stored in \<open>processed\<close>. So a non-zero exit code is reported before output on the standard
  error when both flags are set.
\<close>

theorem process_output_order:
  assumes "self_result self = Some r" and "stdout r = Some out" and "stderr r = Some err"
    and "returncode r = Some rc"
  shows "process_output self post_processor check stderr_is_error error_log s =
     (if check \<and> rc \<noteq> 0 then
        (let msg = [nl] @ ''  '' @ class_name (cls self) @ '' '' @ [sq] @ format_cmd (self_command self)
                   @ [sq] @ [nl] @ ''  yields nonzero exit code: '' @ str_int rc @ [nl]
                   @ ''  stderr: '' @ err
         in (Inl (Exn NonZeroReturnCode msg (Some r)), self,
             case error_log of None \<Rightarrow> s | Some lg \<Rightarrow> emit (Logged lg msg) s))
      else if stderr_is_error \<and> err \<noteq> [] then
        (let msg = [nl] @ ''  '' @ class_name (cls self) @ '' '' @ [sq] @ format_cmd (self_command self)
                   @ [sq] @ [nl] @ ''  yields output on stderr: '' @ [nl] @ err
         in (Inl (Exn Stderr msg (Some r)), self,
             case error_log of None \<Rightarrow> s | Some lg \<Rightarrow> emit (Logged lg msg) s))
      else
        (case post_processor of
           None \<Rightarrow> (Inr r, self, s)
         | Some f \<Rightarrow>
             (case f out of
                Inl e \<Rightarrow> (Inl e, self, s)
              | Inr v \<Rightarrow> (Inr (r\<lparr>processed := Some v\<rparr>),
                         self\<lparr>self_result := Some (r\<lparr>processed := Some v\<rparr>)\<rparr>, s))))"
  using assms
  by (simp add: process_output_def check_stderr_def post_process_def FailedCommand_def
      nonzero_msg_def stderr_msg_def Let_def split: option.splits sum.splits)

theorem process_output_order_witness:
  "fst (process_output demo_self None True True None demo_io) =
     Inl (Exn NonZeroReturnCode
           ([nl] @ ''  RemoteCommand '' @ [sq] @ ''ls /nowhere'' @ [sq] @ [nl]
            @ ''  yields nonzero exit code: 2'' @ [nl] @ ''  stderr: no such file'')
           (self_result demo_self))"
  using process_output_order [of demo_self "the (self_result demo_self)" "[]" "''no such file''" 2
      None True True None demo_io]
  by (simp add: demo_self_def str_int_def str_nat.simps)

text \<open>
  C10. Whatever the flags and the post-processor, \<^verbatim>\<open>process_output\<close> leaves the standard
  output, the standard error and the exit code of the result as they were, whether it
  returns or raises: when it raises, the result of the command object is the one it had;
  when it returns, the result returned is the one of the command object, and differs from
  the former one in \<open>processed\<close> at most. Nothing else of the command object changes.
\<close>

theorem process_output_frame:
  assumes "self_result self = Some r"
    and "process_output self post_processor check stderr_is_error error_log s = (res, self', s')"
  shows "\<exists>r'. self' = self\<lparr>self_result := Some r'\<rparr>
      \<and> stdout r' = stdout r \<and> stderr r' = stderr r \<and> returncode r' = returncode r
      \<and> r' = r\<lparr>processed := processed r'\<rparr>
      \<and> (case res of Inl x \<Rightarrow> r' = r | Inr rr \<Rightarrow> rr = r')"
  using assms
  by (auto simp: process_output_def check_stderr_def post_process_def FailedCommand_def Let_def
      split: option.splits sum.splits if_splits)

theorem process_output_frame_witness:
  "\<exists>r'. fst (snd (process_output (demo_self\<lparr>self_result := Some
                 \<lparr>stdout = Some [CHR ''a'', nl, CHR ''b''], stderr = Some [], returncode = Some 0,
                  processed = None, attempts = None, repeat_messages = None\<rparr>\<rparr>)
               lines_post_processor True True None demo_io))
        = demo_self\<lparr>self_result := Some r'\<rparr>
     \<and> stdout r' = Some [CHR ''a'', nl, CHR ''b''] \<and> stderr r' = Some [] \<and> returncode r' = Some 0"
proof -
  let ?r = "\<lparr>stdout = Some [CHR ''a'', nl, CHR ''b''], stderr = Some [], returncode = Some 0,
             processed = (None :: string list option), attempts = None, repeat_messages = None\<rparr>"
  let ?self = "demo_self\<lparr>self_result := Some ?r\<rparr>"
  obtain res self' s' where
    run: "process_output ?self lines_post_processor True True None demo_io = (res, self', s')"
    by (cases "process_output ?self lines_post_processor True True None demo_io") auto
  have sr: "self_result ?self = Some ?r" by simp
  from process_output_frame [OF sr run] obtain r' where
    r': "self' = ?self\<lparr>self_result := Some r'\<rparr>" "stdout r' = stdout ?r" "stderr r' = stderr ?r"
      "returncode r' = returncode ?r"
    by blast
  show ?thesis
    by (rule exI [of _ r']) (simp add: run r')
qed



section \<open>Construction and dispatch\<close>

text \<open>
  C6. Without a connection \<^verbatim>\<open>run\<close> builds a \<^verbatim>\<open>LocalCommand\<close>, with a connection a
  \<^verbatim>\<open>RemoteCommand\<close> holding that connection. With \<open>attempts = 1\<close> it calls \<^verbatim>\<open>execute\<close> once:
  the local executor starts one process, the remote one sends one command through the
  client of the connection. With any other number of attempts it calls \<^verbatim>\<open>execute_repeat\<close>
  with that number and the given wait.
\<close>

theorem run_dispatch:
  "(connection = None \<longrightarrow>
      (case LocalCommand_init command working_directory of
         Inl x \<Rightarrow> run command connection working_directory check stderr_is_error timeout error_log
                    post_processor attempts_arg wait verbose s = Some (Inl x, s)
       | Inr cmd \<Rightarrow>
           cls cmd = LocalCommand
           \<and> (if attempts_arg = 1 then
                (\<exists>res cmd' s'. Local_execute cmd post_processor check stderr_is_error timeout
                                  error_log s = (res, cmd', s')
                   \<and> run command connection working_directory check stderr_is_error timeout
                       error_log post_processor attempts_arg wait verbose s = Some (res, s')
                   \<and> executions (trace s') = executions (trace s)
                        @ [SubprocessRun (self_command cmd) working_directory timeout])
              else
                run command connection working_directory check stderr_is_error timeout error_log
                    post_processor attempts_arg wait verbose s
                  = map_option (\<lambda>(res, cmd', s'). (res, s'))
                      (execute_repeat cmd attempts_arg wait check stderr_is_error error_log
                         post_processor verbose timeout s))))
   \<and> (\<forall>conn. connection = Some conn \<longrightarrow>
      (case RemoteCommand_init conn command working_directory of
         Inl x \<Rightarrow> False
       | Inr cmd \<Rightarrow>
           cls cmd = RemoteCommand \<and> self_connection cmd = Some conn
           \<and> (if attempts_arg = 1 then
                (\<exists>res cmd' s'. Remote_execute cmd post_processor check stderr_is_error timeout
                                  error_log s = (res, cmd', s')
                   \<and> run command connection working_directory check stderr_is_error timeout
                       error_log post_processor attempts_arg wait verbose s = Some (res, s')
                   \<and> executions (trace s') = executions (trace s)
                        @ [ExecCommand (paramiko_client conn) (format_cmd (self_command cmd)) timeout])
              else
                run command connection working_directory check stderr_is_error timeout error_log
                    post_processor attempts_arg wait verbose s
                  = map_option (\<lambda>(res, cmd', s'). (res, s'))
                      (execute_repeat cmd attempts_arg wait check stderr_is_error error_log
                         post_processor verbose timeout s))))"
proof (intro conjI impI allI)
  assume none: "connection = None"
  show "case LocalCommand_init command working_directory of
         Inl x \<Rightarrow> run command connection working_directory check stderr_is_error timeout error_log
                    post_processor attempts_arg wait verbose s = Some (Inl x, s)
       | Inr cmd \<Rightarrow>
           cls cmd = LocalCommand
           \<and> (if attempts_arg = 1 then
                (\<exists>res cmd' s'. Local_execute cmd post_processor check stderr_is_error timeout
                                  error_log s = (res, cmd', s')
                   \<and> run command connection working_directory check stderr_is_error timeout
                       error_log post_processor attempts_arg wait verbose s = Some (res, s')
                   \<and> executions (trace s') = executions (trace s)
                        @ [SubprocessRun (self_command cmd) working_directory timeout])
              else
                run command connection working_directory check stderr_is_error timeout error_log
                    post_processor attempts_arg wait verbose s
                  = map_option (\<lambda>(res, cmd', s'). (res, s'))
                      (execute_repeat cmd attempts_arg wait check stderr_is_error error_log
                         post_processor verbose timeout s))"
  proof (cases "LocalCommand_init command working_directory :: 'b exn + ('a, 'b) command_obj")
    case (Inl x)
    with none show ?thesis by (simp add: run_def)
  next
    case (Inr cmd)
    note c = LocalCommand_init_cls [OF Inr]
    obtain res cmd' s' where ex: "Local_execute cmd post_processor check stderr_is_error timeout
        error_log s = (res, cmd', s')"
      by (cases "Local_execute cmd post_processor check stderr_is_error timeout error_log s") auto
    have ev: "executions (trace s') = executions (trace s)
        @ [SubprocessRun (self_command cmd) working_directory timeout]"
      using Local_execute_event [of cmd post_processor check stderr_is_error timeout error_log s] ex c(2)
      by simp
    show ?thesis
      using none Inr c(1) ex ev
      by (auto simp: run_def execute_def split: option.splits)
  qed
next
  fix conn
  assume some: "connection = Some conn"
  obtain cmd :: "('a, 'b) command_obj" where
    mk: "RemoteCommand_init conn command working_directory = Inr cmd"
    by (cases "RemoteCommand_init conn command working_directory :: 'b exn + ('a, 'b) command_obj")
       (auto simp: RemoteCommand_init_def CommandBase_init_def Let_def split: option.splits if_splits)
  note c = RemoteCommand_init_cls [OF mk]
  obtain res cmd' s' where ex: "Remote_execute cmd post_processor check stderr_is_error timeout
      error_log s = (res, cmd', s')"
    by (cases "Remote_execute cmd post_processor check stderr_is_error timeout error_log s") auto
  have ev: "executions (trace s') = executions (trace s)
      @ [ExecCommand (paramiko_client conn) (format_cmd (self_command cmd)) timeout]"
    using Remote_execute_event [OF c(3), of post_processor check stderr_is_error timeout error_log s] ex
    by simp
  show "case RemoteCommand_init conn command working_directory of
         Inl x \<Rightarrow> False
       | Inr cmd \<Rightarrow>
           cls cmd = RemoteCommand \<and> self_connection cmd = Some conn
           \<and> (if attempts_arg = 1 then
                (\<exists>res cmd' s'. Remote_execute cmd post_processor check stderr_is_error timeout
                                  error_log s = (res, cmd', s')
                   \<and> run command connection working_directory check stderr_is_error timeout
                       error_log post_processor attempts_arg wait verbose s = Some (res, s')
                   \<and> executions (trace s') = executions (trace s)
                        @ [ExecCommand (paramiko_client conn) (format_cmd (self_command cmd)) timeout])
              else
                run command connection working_directory check stderr_is_error timeout error_log
                    post_processor attempts_arg wait verbose s
                  = map_option (\<lambda>(res, cmd', s'). (res, s'))
                      (execute_repeat cmd attempts_arg wait check stderr_is_error error_log
                         post_processor verbose timeout s))"
    using some mk c(1,3) ex ev
    by (auto simp: run_def execute_def split: option.splits)
qed

theorem run_dispatch_witness:
  "(\<exists>res s'. run (Text ''echo hi'') None (Some ''.'') True False None None no_post_processor
               1 0 True lines_io = Some (res, s')
      \<and> executions (trace s') = [SubprocessRun (Args [''echo'', ''hi'']) (Some ''.'') None])
   \<and> (\<exists>res s'. run (Text ''echo hi'') (Some demo_conn) (Some ''.'') True False None None
               no_post_processor 1 0 True partial_io = Some (res, s')
      \<and> executions (trace s') = [ExecCommand 7 ''cd . && echo hi'' None])"
proof -
  have L: "(LocalCommand_init (Text ''echo hi'') (Some ''.'') :: string list exn + (nat, string list) command_obj)
      = Inr \<lparr>cls = LocalCommand, self_command = Args [''echo'', ''hi''], self_connection = None,
             self_working_directory = Some ''.'', self_result = None, self_repeat_messages = []\<rparr>"
    by (simp add: LocalCommand_init_def CommandBase_init_def lex_defs sq_def dq_def bsl_def nl_def
        tab_def cr_def)
  have R: "(RemoteCommand_init demo_conn (Text ''echo hi'') (Some ''.'') :: string list exn + (nat, string list) command_obj)
      = Inr \<lparr>cls = RemoteCommand, self_command = Text ''cd . && echo hi'',
             self_connection = Some demo_conn,
             self_working_directory = Some ''.'', self_result = None, self_repeat_messages = []\<rparr>"
    by (simp add: RemoteCommand_init_def CommandBase_init_def lex_defs Let_def)
  from run_dispatch [of None "Text ''echo hi''" "Some ''.''" True False None None no_post_processor
      1 0 True lines_io, THEN conjunct1]
  have A: "\<exists>res s'. run (Text ''echo hi'') None (Some ''.'') True False None None no_post_processor
               1 0 True lines_io = Some (res, s')
      \<and> executions (trace s') = [SubprocessRun (Args [''echo'', ''hi'']) (Some ''.'') None]"
    using L by (auto simp: lines_io_def executions_def)
  from run_dispatch [of "Some demo_conn" "Text ''echo hi''" "Some ''.''" True False None None
      no_post_processor 1 0 True partial_io, THEN conjunct2, rule_format, of demo_conn]
  have B: "\<exists>res s'. run (Text ''echo hi'') (Some demo_conn) (Some ''.'') True False None None
               no_post_processor 1 0 True partial_io = Some (res, s')
      \<and> executions (trace s') = [ExecCommand 7 ''cd . && echo hi'' None]"
    using R by (auto simp: partial_io_def executions_def demo_conn_def)
  from A B show ?thesis by blast
qed



text \<open>
  C9, as the claim states it: every text given to \<^verbatim>\<open>LocalCommand\<close> would become an argument
  vector. A text with a quotation that is not closed does not: \<^verbatim>\<open>shlex.split\<close> raises
  \<^verbatim>\<open>ValueError\<close>, and so does the constructor.
\<close>

theorem unclosed_quotation_raises_ValueError:
  "(LocalCommand_init (Text (''echo '' @ [dq] @ ''hi'')) None
      :: string list exn + (nat, string list) command_obj)
     = Inl (Exn ValueError ''No closing quotation'' None)"
  by (simp add: LocalCommand_init_def CommandBase_init_def lex_defs sq_def dq_def bsl_def nl_def
      tab_def cr_def)

text \<open>
  C9, amended. \<^verbatim>\<open>LocalCommand\<close> raises \<^verbatim>\<open>TypeError\<close> for a command that is not a text. For
  a text that \<^verbatim>\<open>shlex.split\<close> accepts, the command becomes the argument vector that
  \<^verbatim>\<open>shlex.split\<close> returns; for a text it rejects, the constructor raises its \<^verbatim>\<open>ValueError\<close>.
  A quoted segment is one argument: after a word, a segment between two quotes of the same
  kind, holding no such quote (and no backslash inside double quotes), is the second
  argument as it stands, spaces included.
\<close>

theorem local_command_tokenized:
  "(LocalCommand_init (Args xs) working_directory :: 'p exn + ('c, 'p) command_obj)
     = Inl (Exn TypeError (''Expecting '' @ [dq] @ ''str'' @ [dq] @ '' for command.'') None)
   \<and> (LocalCommand_init (Obj t) working_directory :: 'p exn + ('c, 'p) command_obj)
     = Inl (Exn TypeError (''Expecting '' @ [dq] @ ''str'' @ [dq] @ '' for command.'') None)
   \<and> (LocalCommand_init (Text txt) working_directory :: 'p exn + ('c, 'p) command_obj)
     = (case shlex_split txt of
          Inl m \<Rightarrow> Inl (Exn ValueError m None)
        | Inr argv \<Rightarrow> Inr \<lparr>cls = LocalCommand, self_command = Args argv, self_connection = None,
                           self_working_directory = working_directory, self_result = None,
                           self_repeat_messages = []\<rparr>)
   \<and> (list_all ordinary w \<and> w \<noteq> [] \<and> is_quote q \<and> q \<notin> set seg \<and> (q = dq \<longrightarrow> bsl \<notin> set seg)
        \<longrightarrow> shlex_split (w @ CHR '' '' # q # seg @ [q]) = Inr [w, seg])"
proof (intro conjI impI)
  assume a: "list_all ordinary w \<and> w \<noteq> [] \<and> is_quote q \<and> q \<notin> set seg \<and> (q = dq \<longrightarrow> bsl \<notin> set seg)"
  then have q: "is_quote q" "q \<notin> set seg" "q = dq \<longrightarrow> bsl \<notin> set seg" by blast+
  have "read_tokens Sp [] False (q # seg @ [q]) = read_tokens (Qt q) [] False (seg @ q # [])"
    using q(1) by (auto simp: is_quote_def is_whitespace_def sq_def dq_def bsl_def tab_def cr_def nl_def)
  also have "\<dots> = read_tokens Wd ([] @ seg) True []"
    by (rule quoted_segment [OF q(2,3)])
  also have "\<dots> = Inr [seg]" by (simp add: emit_token_def)
  finally have seg: "read_tokens Sp [] False (q # seg @ [q]) = Inr [seg]" .
  from a have w: "list_all ordinary w" "w \<noteq> []" by blast+
  have "shlex_split (w @ CHR '' '' # q # seg @ [q])
      = read_tokens Sp [] False (w @ CHR '' '' # (q # seg @ [q]))"
    by (simp only: shlex_split_def)
  also have "\<dots> = map_sum (\<lambda>e. e) ((#) w) (read_tokens Sp [] False (q # seg @ [q]))"
    by (rule word_then_space [OF w])
  also have "\<dots> = Inr [w, seg]"
    by (simp only: seg map_sum.simps)
  finally show "shlex_split (w @ CHR '' '' # q # seg @ [q]) = Inr [w, seg]" .
qed (simp_all add: LocalCommand_init_def CommandBase_init_def split: sum.splits)

theorem local_command_tokenized_witness:
  "(LocalCommand_init (Text (''grep '' @ [dq] @ ''two words'' @ [dq])) (Some ''.'')
      :: string list exn + (nat, string list) command_obj)
     = Inr \<lparr>cls = LocalCommand, self_command = Args [''grep'', ''two words''],
            self_connection = None, self_working_directory = Some ''.'', self_result = None,
            self_repeat_messages = []\<rparr>"
proof -
  have h: "list_all ordinary ''grep'' \<and> ''grep'' \<noteq> [] \<and> is_quote dq \<and> dq \<notin> set ''two words''
      \<and> (dq = dq \<longrightarrow> bsl \<notin> set ''two words'')"
    by (simp add: ordinary_def is_whitespace_def is_quote_def sq_def dq_def bsl_def tab_def cr_def nl_def)
  note T = local_command_tokenized [where 'c = nat and 'p = "string list", of "[]" "Some ''.''" "[]"
      "''grep '' @ [dq] @ ''two words'' @ [dq]" "''grep''" dq "''two words''"]
  from T [THEN conjunct2, THEN conjunct2, THEN conjunct2, rule_format, OF h]
  have s: "shlex_split (''grep '' @ [dq] @ ''two words'' @ [dq]) = Inr [''grep'', ''two words'']"
    by simp
  from T [THEN conjunct2, THEN conjunct2, THEN conjunct1]
  show ?thesis unfolding s by simp
qed

end
